theory Spec2Isabelle
  imports Complex_Main
begin

section \<open>The gesture detector of \<^verbatim>\<open>src/gesture_detection.py\<close>\<close>

text \<open>
  The class \<^verbatim>\<open>GestureDetector\<close> is embedded by explicit state passing: its mutable
  attributes form the record \<open>detector\<close>, every method takes the detector and returns
  the updated one. What the methods read from outside is an argument of the model:
  \<^item> the value of \<^verbatim>\<open>time.time()\<close> read at the start of \<^verbatim>\<open>detect_gesture\<close>;
  \<^item> the hands returned by the hand-pose estimator (\<^verbatim>\<open>results.multi_hand_landmarks\<close>),
    where the empty list stands for both \<^verbatim>\<open>None\<close> and \<^verbatim>\<open>[]\<close> (both are falsy).
  Coordinates and timestamps are Python floats; they are modelled as real numbers, so
  rounding is outside the model. What the infinities and NaN do is the subject of a
  second translation of \<^verbatim>\<open>detect_gesture\<close> further down. Logging, the resizing and the
  colour conversion of the frame do not touch the detector and are left out; of the
  drawing of the landmarks, the exception it can raise is kept. An exception is a value: the bodies of the two \<^verbatim>\<open>try\<close> blocks return
  \<open>Inl\<close> of the error together with the state as mutated so far, and the handlers are
  the branches that turn it into "no gesture".
\<close>

subsection \<open>Data\<close>

datatype gesture = Play | Pause | SwipeLeft | SwipeRight | VolumeUp | VolumeDown | Quit

datatype py_error = IndexError | ValueError

text \<open>A landmark has the attributes \<^verbatim>\<open>x\<close> and \<^verbatim>\<open>y\<close> (\<^verbatim>\<open>z\<close> is never read).\<close>

record landmark =
  lm_x :: real
  lm_y :: real

text \<open>\<^verbatim>\<open>hand_landmarks.landmark\<close>: the sequence of landmarks of one hand.\<close>

type_synonym hand_landmarks = "landmark list"

record detector =
  last_gesture_time :: real
  last_gesture :: "gesture option"
  initial_position :: "(real \<times> real) option"
  movement_history :: "(real \<times> real) list"
  frame_skip_count :: nat
  debug_log_counter :: nat

text \<open>
  The constants that \<^verbatim>\<open>__init__\<close> sets and no method changes. Two more are left out:
  \<^verbatim>\<open>swipe_threshold\<close> is never read, and \<^verbatim>\<open>debug_log_interval\<close> only decides when a
  debug line is logged.
\<close>

definition play_pause_cooldown :: real where
  "play_pause_cooldown = 2.0"

definition gesture_cooldown :: real where
  "gesture_cooldown = 0.3"

definition min_swipe_frames :: nat where
  "min_swipe_frames = 3"

definition movement_history_size :: nat where
  "movement_history_size = 3"

definition process_every_n_frames :: nat where
  "process_every_n_frames = 4"

text \<open>The detector as \<^verbatim>\<open>__init__\<close> leaves it.\<close>

definition init_detector :: detector where
  "init_detector =
     \<lparr>last_gesture_time = 0, last_gesture = None, initial_position = None,
      movement_history = [], frame_skip_count = 0, debug_log_counter = 0\<rparr>"

subsection \<open>Reading landmarks\<close>

text \<open>\<^verbatim>\<open>hand_landmarks.landmark[i]\<close> for a constant index \<open>i \<ge> 0\<close>: out of range raises.\<close>

definition landmark_at :: "hand_landmarks \<Rightarrow> nat \<Rightarrow> py_error + landmark" where
  "landmark_at h i = (if i < length h then Inr (h ! i) else Inl IndexError)"

definition fingertip_indices :: "nat list" where
  "fingertip_indices = [4, 8, 12, 16, 20]"

text \<open>The loop of \<^verbatim>\<open>_is_open_palm\<close> and \<^verbatim>\<open>_is_closed_fist\<close> that collects the distances.\<close>

fun tip_distances :: "hand_landmarks \<Rightarrow> landmark \<Rightarrow> nat list \<Rightarrow> py_error + real list" where
  "tip_distances h wrist [] = Inr []"
| "tip_distances h wrist (tip_idx # rest) =
     (case landmark_at h tip_idx of
        Inl e \<Rightarrow> Inl e
      | Inr tip \<Rightarrow>
          (let dx = lm_x tip - lm_x wrist;
               dy = lm_y tip - lm_y wrist;
               dist = sqrt (dx\<^sup>2 + dy\<^sup>2)
           in case tip_distances h wrist rest of
                Inl e \<Rightarrow> Inl e
              | Inr distances \<Rightarrow> Inr (dist # distances)))"

text \<open>\<^verbatim>\<open>avg_dist\<close>, computed the same way by both pose tests.\<close>

definition avg_dist :: "hand_landmarks \<Rightarrow> nat \<Rightarrow> py_error + real" where
  "avg_dist h wrist_index =
     (case landmark_at h wrist_index of
        Inl e \<Rightarrow> Inl e
      | Inr wrist \<Rightarrow>
          (case tip_distances h wrist fingertip_indices of
             Inl e \<Rightarrow> Inl e
           | Inr distances \<Rightarrow> Inr (sum_list distances / real (length distances))))"

definition is_open_palm :: "hand_landmarks \<Rightarrow> py_error + bool" where
  "is_open_palm h = (case avg_dist h 0 of Inl e \<Rightarrow> Inl e | Inr a \<Rightarrow> Inr (a > 0.12))"

definition is_closed_fist :: "hand_landmarks \<Rightarrow> py_error + bool" where
  "is_closed_fist h = (case avg_dist h 0 of Inl e \<Rightarrow> Inl e | Inr a \<Rightarrow> Inr (a < 0.06))"

subsection \<open>\<^verbatim>\<open>detect_gesture\<close>\<close>

text \<open>Lines 84-89: the midpoint of the wrist and the thumb tip.\<close>

definition current_position :: "hand_landmarks \<Rightarrow> py_error + (real \<times> real)" where
  "current_position h =
     (case landmark_at h 0 of
        Inl e \<Rightarrow> Inl e
      | Inr palm_center \<Rightarrow>
          (case landmark_at h 4 of
             Inl e \<Rightarrow> Inl e
           | Inr thumb_tip \<Rightarrow>
               Inr ((lm_x palm_center + lm_x thumb_tip) / 2,
                    (lm_y palm_center + lm_y thumb_tip) / 2)))"

text \<open>Lines 98-106: append the movement, drop the oldest one beyond the capacity.\<close>

definition track :: "real \<times> real \<Rightarrow> real \<times> real \<Rightarrow> detector \<Rightarrow> detector" where
  "track cur ip s =
     (let movement = (fst cur - fst ip, snd cur - snd ip);
          appended = movement_history s @ [movement];
          kept = (if length appended > movement_history_size then tl appended else appended)
      in s\<lparr>movement_history := kept, debug_log_counter := debug_log_counter s + 1\<rparr>)"

text \<open>\<^verbatim>\<open>net_x\<close> and \<^verbatim>\<open>net_y\<close>: last offset of the buffer minus its first offset.\<close>

definition net_displacement :: "(real \<times> real) list \<Rightarrow> real \<times> real" where
  "net_displacement hist = (fst (last hist) - fst (hd hist), snd (last hist) - snd (hd hist))"

text \<open>Lines 111-138: the swipe test; \<open>None\<close> when it does not fire.\<close>

definition swipe_test :: "real \<Rightarrow> detector \<Rightarrow> gesture option" where
  "swipe_test current_time s =
     (if length (movement_history s) \<ge> min_swipe_frames then
        (let net_x = fst (net_displacement (movement_history s));
             net_y = snd (net_displacement (movement_history s));
             net_dist = \<bar>net_x\<bar>;
             ratio = (if \<bar>net_x\<bar> > 0.001 then \<bar>net_y / net_x\<bar> else 0);
             can_swipe = (length (movement_history s) \<ge> min_swipe_frames
                          \<and> net_dist > 0.08
                          \<and> ratio < 0.5
                          \<and> current_time - last_gesture_time s \<ge> gesture_cooldown)
         in if can_swipe then (if net_x > 0 then Some SwipeRight else Some SwipeLeft)
            else None)
      else None)"

text \<open>Lines 148-167: the volume test; \<open>None\<close> when it does not fire.\<close>

definition volume_test :: "real \<Rightarrow> detector \<Rightarrow> gesture option" where
  "volume_test current_time s =
     (if length (movement_history s) \<ge> min_swipe_frames then
        (let net_x = fst (net_displacement (movement_history s));
             net_y = snd (net_displacement (movement_history s));
             vertical_dist = \<bar>net_y\<bar>
         in if current_time - last_gesture_time s \<ge> gesture_cooldown then
              (if \<bar>net_y\<bar> > \<bar>net_x\<bar> * 1.5 \<and> vertical_dist > 0.08 then
                 (if net_y < 0 then Some VolumeUp else Some VolumeDown)
               else None)
            else None)
      else None)"

text \<open>Lines 176-182: the static poses, open palm first.\<close>

definition pose_test :: "real \<Rightarrow> hand_landmarks \<Rightarrow> detector \<Rightarrow> py_error + gesture option" where
  "pose_test current_time h s =
     (if current_time - last_gesture_time s \<ge> play_pause_cooldown then
        (case is_open_palm h of
           Inl e \<Rightarrow> Inl e
         | Inr True \<Rightarrow> Inr (Some Play)
         | Inr False \<Rightarrow>
             (case is_closed_fist h of
                Inl e \<Rightarrow> Inl e
              | Inr True \<Rightarrow> Inr (Some Pause)
              | Inr False \<Rightarrow> Inr None))
      else Inr None)"

text \<open>
  What every emitting path does to the state (lines 140-142, 169-171, 186-188): the
  timestamp is set, the reference and the buffer are cleared.
\<close>

definition fired :: "real \<Rightarrow> detector \<Rightarrow> detector" where
  "fired current_time s =
     s\<lparr>last_gesture_time := current_time, initial_position := None, movement_history := []\<rparr>"

text \<open>The body of the \<^verbatim>\<open>try\<close> block of \<^verbatim>\<open>detect_gesture\<close>.\<close>

definition detect_gesture_body ::
  "real \<Rightarrow> hand_landmarks \<Rightarrow> detector \<Rightarrow> (py_error + gesture option) \<times> detector" where
  "detect_gesture_body current_time h s =
     (case current_position h of
        Inl e \<Rightarrow> (Inl e, s)
      | Inr cur \<Rightarrow>
          (case initial_position s of
             None \<Rightarrow> (Inr None, s\<lparr>initial_position := Some cur, movement_history := []\<rparr>)
           | Some ip \<Rightarrow>
               (let s1 = track cur ip s in
                case swipe_test current_time s1 of
                  Some g \<Rightarrow> (Inr (Some g), fired current_time s1)
                | None \<Rightarrow>
                    (case volume_test current_time s1 of
                       Some g \<Rightarrow> (Inr (Some g), fired current_time s1)
                     | None \<Rightarrow>
                         (case pose_test current_time h s1 of
                            Inl e \<Rightarrow> (Inl e, s1)
                          | Inr (Some g) \<Rightarrow> (Inr (Some g), fired current_time s1)
                          | Inr None \<Rightarrow> (Inr None, s1\<lparr>initial_position := Some cur\<rparr>))))))"

text \<open>\<^verbatim>\<open>detect_gesture\<close>: the handler logs the exception and returns \<^verbatim>\<open>None\<close>.\<close>

definition detect_gesture :: "real \<Rightarrow> hand_landmarks \<Rightarrow> detector \<Rightarrow> gesture option \<times> detector" where
  "detect_gesture current_time h s =
     (case detect_gesture_body current_time h s of
        (Inl e, s') \<Rightarrow> (None, s')
      | (Inr g, s') \<Rightarrow> (g, s'))"

subsection \<open>\<^verbatim>\<open>process_frame\<close>\<close>

text \<open>
  An observed hand comes with the clock value that \<^verbatim>\<open>detect_gesture\<close> reads when it is
  called on that hand; the value is not used when the hand is never classified.
\<close>

type_synonym observation = "real \<times> hand_landmarks"

text \<open>Lines 217-222: both wrists of the first two hands above \<open>y = 0.3\<close>.\<close>

definition quit_test :: "hand_landmarks list \<Rightarrow> py_error + bool" where
  "quit_test hands =
     (if length hands \<ge> 2 then
        (case landmark_at (hands ! 0) 0 of
           Inl e \<Rightarrow> Inl e
         | Inr wrist1 \<Rightarrow>
             (case landmark_at (hands ! 1) 0 of
                Inl e \<Rightarrow> Inl e
              | Inr wrist2 \<Rightarrow> Inr (lm_y wrist1 < 0.3 \<and> lm_y wrist2 < 0.3)))
      else Inr False)"

text \<open>
  Lines 230-234: \<^verbatim>\<open>mp_drawing.draw_landmarks(frame, hand_landmarks, HAND_CONNECTIONS)\<close>.
  The function belongs to the MediaPipe library. It draws on the frame only, so its one
  effect on the detector is the exception it can raise: it checks every connection of
  \<^verbatim>\<open>HAND_CONNECTIONS\<close>, which join the landmark indices 0 to 20, against the number of
  landmarks of the hand and raises \<^verbatim>\<open>ValueError\<close> ("Landmark index is out of range") when
  an index is missing, that is, when the hand has fewer than 21 landmarks.
\<close>

definition draw_landmarks :: "hand_landmarks \<Rightarrow> py_error + unit" where
  "draw_landmarks h = (if length h < 21 then Inl ValueError else Inr ())"

text \<open>
  Lines 229-237: the loop over the hands. Each hand is drawn, then classified; the loop
  is left at the first gesture. An exception of the drawing leaves the loop and the
  \<^verbatim>\<open>try\<close> block with the detector as the hands before have left it.
\<close>

fun detect_hands ::
  "observation list \<Rightarrow> detector \<Rightarrow> (py_error + gesture option) \<times> detector" where
  "detect_hands [] s = (Inr None, s)"
| "detect_hands ((current_time, h) # rest) s =
     (case draw_landmarks h of
        Inl e \<Rightarrow> (Inl e, s)
      | Inr drawn \<Rightarrow>
          (case detect_gesture current_time h s of
             (Some g, s') \<Rightarrow> (Inr (Some g), s')
           | (None, s') \<Rightarrow> detect_hands rest s'))"

text \<open>The body of the \<^verbatim>\<open>try\<close> block of \<^verbatim>\<open>process_frame\<close>.\<close>

definition process_frame_body ::
  "observation list \<Rightarrow> detector \<Rightarrow> (py_error + gesture option) \<times> detector" where
  "process_frame_body obs s =
     (let s1 = s\<lparr>frame_skip_count := frame_skip_count s + 1\<rparr> in
      if frame_skip_count s1 mod process_every_n_frames \<noteq> 0 then (Inr None, s1)
      else
        (case quit_test (map snd obs) of
           Inl e \<Rightarrow> (Inl e, s1)
         | Inr True \<Rightarrow> (Inr (Some Quit), s1)
         | Inr False \<Rightarrow>
             (if obs \<noteq> [] then detect_hands obs s1
              else (Inr None, s1\<lparr>initial_position := None, movement_history := []\<rparr>))))"

text \<open>\<^verbatim>\<open>process_frame\<close>: the handler logs the exception and returns no gesture.\<close>

definition process_frame :: "observation list \<Rightarrow> detector \<Rightarrow> gesture option \<times> detector" where
  "process_frame obs s =
     (case process_frame_body obs s of
        (Inl e, s') \<Rightarrow> (None, s')
      | (Inr g, s') \<Rightarrow> (g, s'))"

text \<open>A run of the main loop: one call of \<^verbatim>\<open>process_frame\<close> per frame, in order.\<close>

fun run_frames :: "observation list list \<Rightarrow> detector \<Rightarrow> detector" where
  "run_frames [] s = s"
| "run_frames (obs # rest) s = run_frames rest (snd (process_frame obs s))"

subsection \<open>Emitted gestures over a run\<close>

text \<open>
  The two classes of gestures that \<^verbatim>\<open>detect_gesture\<close> emits, and the cooldown that the
  code checks before emitting a gesture of each class.
\<close>

definition motion_gesture :: "gesture \<Rightarrow> bool" where
  "motion_gesture g = (g = SwipeLeft \<or> g = SwipeRight \<or> g = VolumeUp \<or> g = VolumeDown)"

definition static_gesture :: "gesture \<Rightarrow> bool" where
  "static_gesture g = (g = Play \<or> g = Pause)"

definition cooldown_of :: "gesture \<Rightarrow> real" where
  "cooldown_of g = (if static_gesture g then play_pause_cooldown else gesture_cooldown)"

text \<open>
  The emission of a frame, taken at the call that makes it: the loop over the hands as in
  \<open>detect_hands\<close>, returning the gesture of the first call of \<^verbatim>\<open>detect_gesture\<close> that
  returns one, together with the clock value which that call has read.
\<close>

fun emitting_call :: "observation list \<Rightarrow> detector \<Rightarrow> (real \<times> gesture) option" where
  "emitting_call [] s = None"
| "emitting_call ((current_time, h) # rest) s =
     (case draw_landmarks h of
        Inl e \<Rightarrow> None
      | Inr drawn \<Rightarrow>
          (case detect_gesture current_time h s of
             (Some g, s') \<Rightarrow> Some (current_time, g)
           | (None, s') \<Rightarrow> emitting_call rest s'))"

text \<open>
  The same for a whole call of \<^verbatim>\<open>process_frame\<close>, along the branches of its body. Quit
  is returned without any clock value being read and is not an emission here.
\<close>

definition frame_emission :: "observation list \<Rightarrow> detector \<Rightarrow> (real \<times> gesture) option" where
  "frame_emission obs s =
     (let s1 = s\<lparr>frame_skip_count := frame_skip_count s + 1\<rparr> in
      if frame_skip_count s1 mod process_every_n_frames \<noteq> 0 then None
      else
        (case quit_test (map snd obs) of
           Inl e \<Rightarrow> None
         | Inr True \<Rightarrow> None
         | Inr False \<Rightarrow> emitting_call obs s1))"

text \<open>
  The emissions of a run of frames, in order, each with the clock value of the call of
  \<^verbatim>\<open>detect_gesture\<close> that made it.
\<close>

fun emissions :: "observation list list \<Rightarrow> detector \<Rightarrow> (real \<times> gesture) list" where
  "emissions [] s = []"
| "emissions (obs # rest) s =
     (case frame_emission obs s of
        Some e \<Rightarrow> e # emissions rest (snd (process_frame obs s))
      | None \<Rightarrow> emissions rest (snd (process_frame obs s)))"

text \<open>
  What the frame gets from the loop once the handler of \<^verbatim>\<open>process_frame\<close> has caught an
  exception of the drawing.
\<close>

definition classify_hands :: "observation list \<Rightarrow> detector \<Rightarrow> gesture option \<times> detector" where
  "classify_hands obs s =
     (case detect_hands obs s of
        (Inl e, s') \<Rightarrow> (None, s')
      | (Inr g, s') \<Rightarrow> (g, s'))"

text \<open>Each event comes at least its cooldown after the one before it.\<close>

fun chain :: "real \<Rightarrow> (real \<times> gesture) list \<Rightarrow> bool" where
  "chain lo [] = True"
| "chain lo ((t, g) # es) = (lo + cooldown_of g \<le> t \<and> chain t es)"

subsection \<open>Concrete hands and detector states\<close>

definition pt :: "real \<Rightarrow> real \<Rightarrow> landmark" where
  "pt a b = \<lparr>lm_x = a, lm_y = b\<rparr>"

text \<open>A hand of 21 landmarks: the five fingertips at \<open>tip\<close>, every other one at \<open>wrist\<close>.\<close>

definition hand_of :: "landmark \<Rightarrow> landmark \<Rightarrow> hand_landmarks" where
  "hand_of wrist tip =
     [wrist, wrist, wrist, wrist, tip, wrist, wrist, wrist, tip, wrist, wrist, wrist, tip,
      wrist, wrist, wrist, tip, wrist, wrist, wrist, tip]"

text \<open>Fingertips 0.2 from the wrist: an open palm. Reference point \<open>(0.6, 0.5)\<close>.\<close>

definition open_hand :: hand_landmarks where
  "open_hand = hand_of (pt 0.5 0.5) (pt 0.7 0.5)"

text \<open>Fingertips 0.1 from the wrist: neither pose. Reference point \<open>(a, b)\<close>.\<close>

definition neutral_hand :: "real \<Rightarrow> real \<Rightarrow> hand_landmarks" where
  "neutral_hand a b = hand_of (pt (a - 0.05) b) (pt (a + 0.05) b)"

text \<open>A hand with its wrist at \<open>y = 0.2\<close>, in the upper part of the frame.\<close>

definition raised_hand :: hand_landmarks where
  "raised_hand = hand_of (pt 0.5 0.2) (pt 0.5 0.1)"

text \<open>A hand of three landmarks only.\<close>

definition short_hand :: hand_landmarks where
  "short_hand = [pt 0.5 0.5, pt 0.5 0.5, pt 0.5 0.5]"

text \<open>
  A detector that tracks a hand, one frame before the next processed frame (lemma
  \<open>tracking_reachable\<close>: eleven frames lead to it from the initial detector).
\<close>

definition tracking :: detector where
  "tracking =
     \<lparr>last_gesture_time = 0, last_gesture = None, initial_position = Some (0.6, 0.5),
      movement_history = [(0.1, 0)], frame_skip_count = 11, debug_log_counter = 1\<rparr>"

text \<open>The initial detector after three skipped frames.\<close>

definition armed :: detector where
  "armed = init_detector\<lparr>frame_skip_count := 3\<rparr>"

text \<open>The open hand with one landmark more than a hand has.\<close>

definition long_hand :: hand_landmarks where
  "long_hand = open_hand @ [pt 0.5 0.5]"

text \<open>
  The tracking detector one processed frame later, with two samples in the window (lemma
  \<open>primed_reachable\<close>).
\<close>

definition primed :: detector where
  "primed =
     \<lparr>last_gesture_time = 0, last_gesture = None, initial_position = Some (0.6, 0.5),
      movement_history = [(0.1, 0), (0, 0)], frame_skip_count = 15, debug_log_counter = 2\<rparr>"

subsection \<open>\<^verbatim>\<open>detect_gesture\<close> on coordinates that need not be finite\<close>

text \<open>
  A Python float is a finite number, an infinity or NaN. To see what a hand with such
  coordinates does, \<^verbatim>\<open>detect_gesture\<close> is translated a second time, line by line as above,
  over a coordinate type with the three further values. The operations follow IEEE 754
  where a value is not finite and are exact on the finite values (rounding, overflow and
  the sign of zero are not modelled). The clock stays a real number.
\<close>

datatype fpval = Finite real | PosInf | NegInf | NaN

fun fp_add :: "fpval \<Rightarrow> fpval \<Rightarrow> fpval" where
  "fp_add NaN b = NaN"
| "fp_add a NaN = NaN"
| "fp_add (Finite a) (Finite b) = Finite (a + b)"
| "fp_add PosInf NegInf = NaN"
| "fp_add NegInf PosInf = NaN"
| "fp_add PosInf b = PosInf"
| "fp_add a PosInf = PosInf"
| "fp_add NegInf b = NegInf"
| "fp_add a NegInf = NegInf"

fun fp_neg :: "fpval \<Rightarrow> fpval" where
  "fp_neg (Finite a) = Finite (- a)"
| "fp_neg PosInf = NegInf"
| "fp_neg NegInf = PosInf"
| "fp_neg NaN = NaN"

definition fp_sub :: "fpval \<Rightarrow> fpval \<Rightarrow> fpval" where
  "fp_sub a b = fp_add a (fp_neg b)"

fun fp_abs :: "fpval \<Rightarrow> fpval" where
  "fp_abs (Finite a) = Finite \<bar>a\<bar>"
| "fp_abs PosInf = PosInf"
| "fp_abs NegInf = PosInf"
| "fp_abs NaN = NaN"

text \<open>The sign of a value that is not NaN: \<open>-1\<close>, \<open>0\<close> or \<open>1\<close>.\<close>

fun fp_sign :: "fpval \<Rightarrow> real" where
  "fp_sign (Finite a) = sgn a"
| "fp_sign PosInf = 1"
| "fp_sign NegInf = - 1"
| "fp_sign NaN = 0"

definition fp_inf :: "real \<Rightarrow> fpval" where
  "fp_inf sg = (if sg = 0 then NaN else if sg > 0 then PosInf else NegInf)"

fun fp_mul :: "fpval \<Rightarrow> fpval \<Rightarrow> fpval" where
  "fp_mul NaN b = NaN"
| "fp_mul a NaN = NaN"
| "fp_mul (Finite a) (Finite b) = Finite (a * b)"
| "fp_mul a b = fp_inf (fp_sign a * fp_sign b)"

text \<open>
  Division. A finite value by zero (which numpy turns into an infinity or NaN, and plain
  Python into an exception) does not occur: the code divides by 2, by 5, and by
  \<^verbatim>\<open>net_x\<close> only when \<^verbatim>\<open>abs(net_x) > 1e-3\<close>.
\<close>

fun fp_div :: "fpval \<Rightarrow> fpval \<Rightarrow> fpval" where
  "fp_div NaN b = NaN"
| "fp_div a NaN = NaN"
| "fp_div (Finite a) (Finite b) = (if b = 0 then fp_inf (sgn a) else Finite (a / b))"
| "fp_div (Finite a) b = Finite 0"
| "fp_div a (Finite b) = fp_inf (fp_sign a * (if b < 0 then - 1 else 1))"
| "fp_div a b = NaN"

text \<open>\<^verbatim>\<open>x ** 0.5\<close>; the argument is a sum of squares and never negative.\<close>

fun fp_sqrt :: "fpval \<Rightarrow> fpval" where
  "fp_sqrt (Finite a) = Finite (sqrt a)"
| "fp_sqrt PosInf = PosInf"
| "fp_sqrt NegInf = PosInf"
| "fp_sqrt NaN = NaN"

text \<open>\<^verbatim>\<open>a < b\<close>: false as soon as one side is NaN.\<close>

fun fp_less :: "fpval \<Rightarrow> fpval \<Rightarrow> bool" where
  "fp_less NaN b = False"
| "fp_less a NaN = False"
| "fp_less (Finite a) (Finite b) = (a < b)"
| "fp_less a PosInf = (a \<noteq> PosInf)"
| "fp_less PosInf b = False"
| "fp_less NegInf b = (b \<noteq> NegInf)"
| "fp_less a NegInf = False"

record fp_landmark =
  fp_x :: fpval
  fp_y :: fpval

text \<open>The attributes that \<^verbatim>\<open>detect_gesture\<close> reads or writes.\<close>

record fp_detector =
  fp_last_gesture_time :: real
  fp_initial_position :: "(fpval \<times> fpval) option"
  fp_movement_history :: "(fpval \<times> fpval) list"
  fp_debug_log_counter :: nat

definition fp_landmark_at :: "fp_landmark list \<Rightarrow> nat \<Rightarrow> py_error + fp_landmark" where
  "fp_landmark_at h i = (if i < length h then Inr (h ! i) else Inl IndexError)"

fun fp_tip_distances ::
  "fp_landmark list \<Rightarrow> fp_landmark \<Rightarrow> nat list \<Rightarrow> py_error + fpval list" where
  "fp_tip_distances h wrist [] = Inr []"
| "fp_tip_distances h wrist (tip_idx # rest) =
     (case fp_landmark_at h tip_idx of
        Inl e \<Rightarrow> Inl e
      | Inr tip \<Rightarrow>
          (let dx = fp_sub (fp_x tip) (fp_x wrist);
               dy = fp_sub (fp_y tip) (fp_y wrist);
               dist = fp_sqrt (fp_add (fp_mul dx dx) (fp_mul dy dy))
           in case fp_tip_distances h wrist rest of
                Inl e \<Rightarrow> Inl e
              | Inr distances \<Rightarrow> Inr (dist # distances)))"

text \<open>\<^verbatim>\<open>sum(distances)\<close> adds from the left, starting at 0.\<close>

definition fp_avg_dist :: "fp_landmark list \<Rightarrow> nat \<Rightarrow> py_error + fpval" where
  "fp_avg_dist h wrist_index =
     (case fp_landmark_at h wrist_index of
        Inl e \<Rightarrow> Inl e
      | Inr wrist \<Rightarrow>
          (case fp_tip_distances h wrist fingertip_indices of
             Inl e \<Rightarrow> Inl e
           | Inr distances \<Rightarrow>
               Inr (fp_div (foldl fp_add (Finite 0) distances)
                           (Finite (real (length distances))))))"

definition fp_is_open_palm :: "fp_landmark list \<Rightarrow> py_error + bool" where
  "fp_is_open_palm h =
     (case fp_avg_dist h 0 of Inl e \<Rightarrow> Inl e | Inr a \<Rightarrow> Inr (fp_less (Finite 0.12) a))"

definition fp_is_closed_fist :: "fp_landmark list \<Rightarrow> py_error + bool" where
  "fp_is_closed_fist h =
     (case fp_avg_dist h 0 of Inl e \<Rightarrow> Inl e | Inr a \<Rightarrow> Inr (fp_less a (Finite 0.06)))"

definition fp_current_position :: "fp_landmark list \<Rightarrow> py_error + (fpval \<times> fpval)" where
  "fp_current_position h =
     (case fp_landmark_at h 0 of
        Inl e \<Rightarrow> Inl e
      | Inr palm_center \<Rightarrow>
          (case fp_landmark_at h 4 of
             Inl e \<Rightarrow> Inl e
           | Inr thumb_tip \<Rightarrow>
               Inr (fp_div (fp_add (fp_x palm_center) (fp_x thumb_tip)) (Finite 2),
                    fp_div (fp_add (fp_y palm_center) (fp_y thumb_tip)) (Finite 2))))"

definition fp_track :: "fpval \<times> fpval \<Rightarrow> fpval \<times> fpval \<Rightarrow> fp_detector \<Rightarrow> fp_detector" where
  "fp_track cur ip s =
     (let movement = (fp_sub (fst cur) (fst ip), fp_sub (snd cur) (snd ip));
          appended = fp_movement_history s @ [movement];
          kept = (if length appended > movement_history_size then tl appended else appended)
      in s\<lparr>fp_movement_history := kept, fp_debug_log_counter := fp_debug_log_counter s + 1\<rparr>)"

definition fp_net_displacement :: "(fpval \<times> fpval) list \<Rightarrow> fpval \<times> fpval" where
  "fp_net_displacement hist =
     (fp_sub (fst (last hist)) (fst (hd hist)), fp_sub (snd (last hist)) (snd (hd hist)))"

definition fp_swipe_test :: "real \<Rightarrow> fp_detector \<Rightarrow> gesture option" where
  "fp_swipe_test current_time s =
     (if length (fp_movement_history s) \<ge> min_swipe_frames then
        (let net_x = fst (fp_net_displacement (fp_movement_history s));
             net_y = snd (fp_net_displacement (fp_movement_history s));
             net_dist = fp_abs net_x;
             ratio = (if fp_less (Finite 0.001) (fp_abs net_x)
                      then fp_abs (fp_div net_y net_x) else Finite 0);
             can_swipe = (length (fp_movement_history s) \<ge> min_swipe_frames
                          \<and> fp_less (Finite 0.08) net_dist
                          \<and> fp_less ratio (Finite 0.5)
                          \<and> current_time - fp_last_gesture_time s \<ge> gesture_cooldown)
         in if can_swipe
            then (if fp_less (Finite 0) net_x then Some SwipeRight else Some SwipeLeft)
            else None)
      else None)"

definition fp_volume_test :: "real \<Rightarrow> fp_detector \<Rightarrow> gesture option" where
  "fp_volume_test current_time s =
     (if length (fp_movement_history s) \<ge> min_swipe_frames then
        (let net_x = fst (fp_net_displacement (fp_movement_history s));
             net_y = snd (fp_net_displacement (fp_movement_history s));
             vertical_dist = fp_abs net_y
         in if current_time - fp_last_gesture_time s \<ge> gesture_cooldown then
              (if fp_less (fp_mul (fp_abs net_x) (Finite 1.5)) (fp_abs net_y)
                  \<and> fp_less (Finite 0.08) vertical_dist then
                 (if fp_less net_y (Finite 0) then Some VolumeUp else Some VolumeDown)
               else None)
            else None)
      else None)"

definition fp_pose_test ::
  "real \<Rightarrow> fp_landmark list \<Rightarrow> fp_detector \<Rightarrow> py_error + gesture option" where
  "fp_pose_test current_time h s =
     (if current_time - fp_last_gesture_time s \<ge> play_pause_cooldown then
        (case fp_is_open_palm h of
           Inl e \<Rightarrow> Inl e
         | Inr True \<Rightarrow> Inr (Some Play)
         | Inr False \<Rightarrow>
             (case fp_is_closed_fist h of
                Inl e \<Rightarrow> Inl e
              | Inr True \<Rightarrow> Inr (Some Pause)
              | Inr False \<Rightarrow> Inr None))
      else Inr None)"

definition fp_fired :: "real \<Rightarrow> fp_detector \<Rightarrow> fp_detector" where
  "fp_fired current_time s =
     s\<lparr>fp_last_gesture_time := current_time, fp_initial_position := None,
       fp_movement_history := []\<rparr>"

definition fp_detect_gesture_body ::
  "real \<Rightarrow> fp_landmark list \<Rightarrow> fp_detector \<Rightarrow> (py_error + gesture option) \<times> fp_detector" where
  "fp_detect_gesture_body current_time h s =
     (case fp_current_position h of
        Inl e \<Rightarrow> (Inl e, s)
      | Inr cur \<Rightarrow>
          (case fp_initial_position s of
             None \<Rightarrow> (Inr None, s\<lparr>fp_initial_position := Some cur, fp_movement_history := []\<rparr>)
           | Some ip \<Rightarrow>
               (let s1 = fp_track cur ip s in
                case fp_swipe_test current_time s1 of
                  Some g \<Rightarrow> (Inr (Some g), fp_fired current_time s1)
                | None \<Rightarrow>
                    (case fp_volume_test current_time s1 of
                       Some g \<Rightarrow> (Inr (Some g), fp_fired current_time s1)
                     | None \<Rightarrow>
                         (case fp_pose_test current_time h s1 of
                            Inl e \<Rightarrow> (Inl e, s1)
                          | Inr (Some g) \<Rightarrow> (Inr (Some g), fp_fired current_time s1)
                          | Inr None \<Rightarrow> (Inr None, s1\<lparr>fp_initial_position := Some cur\<rparr>))))))"

definition fp_detect_gesture ::
  "real \<Rightarrow> fp_landmark list \<Rightarrow> fp_detector \<Rightarrow> gesture option \<times> fp_detector" where
  "fp_detect_gesture current_time h s =
     (case fp_detect_gesture_body current_time h s of
        (Inl e, s') \<Rightarrow> (None, s')
      | (Inr g, s') \<Rightarrow> (g, s'))"

text \<open>The finite values are the real numbers of the first model.\<close>

definition fp_of_landmark :: "landmark \<Rightarrow> fp_landmark" where
  "fp_of_landmark l = \<lparr>fp_x = Finite (lm_x l), fp_y = Finite (lm_y l)\<rparr>"

definition fp_of_point :: "real \<times> real \<Rightarrow> fpval \<times> fpval" where
  "fp_of_point p = (Finite (fst p), Finite (snd p))"

definition fp_of_detector :: "detector \<Rightarrow> fp_detector" where
  "fp_of_detector s =
     \<lparr>fp_last_gesture_time = last_gesture_time s,
      fp_initial_position = map_option fp_of_point (initial_position s),
      fp_movement_history = map fp_of_point (movement_history s),
      fp_debug_log_counter = debug_log_counter s\<rparr>"

text \<open>The open hand with the x coordinate of its wrist replaced.\<close>

definition fp_hand_with_wrist_x :: "fpval \<Rightarrow> fp_landmark list" where
  "fp_hand_with_wrist_x v = (map fp_of_landmark open_hand)[0 := \<lparr>fp_x = v, fp_y = Finite 0.5\<rparr>]"

section \<open>Properties\<close>

subsection \<open>The tracker and the three tests\<close>

lemma track_time [simp]: "last_gesture_time (track cur ip s) = last_gesture_time s"
  by (simp add: track_def Let_def)

lemma swipe_test_Some:
  "swipe_test t s = Some g \<Longrightarrow>
     (g = SwipeLeft \<or> g = SwipeRight) \<and> last_gesture_time s + gesture_cooldown \<le> t"
  by (auto simp add: swipe_test_def Let_def split: if_splits)

lemma volume_test_Some:
  "volume_test t s = Some g \<Longrightarrow>
     (g = VolumeUp \<or> g = VolumeDown) \<and> last_gesture_time s + gesture_cooldown \<le> t"
  by (auto simp add: volume_test_def Let_def split: if_splits)

lemma pose_test_Some:
  "pose_test t h s = Inr (Some g) \<Longrightarrow>
     (g = Play \<or> g = Pause) \<and> last_gesture_time s + play_pause_cooldown \<le> t"
  by (auto simp add: pose_test_def split: if_splits sum.splits bool.splits)

lemma detect_gesture_Some:
  assumes "detect_gesture t h s = (Some g, s')"
  shows "initial_position s' = None \<and> movement_history s' = [] \<and> last_gesture_time s' = t
         \<and> g \<noteq> Quit \<and> last_gesture_time s + cooldown_of g \<le> t"
proof -
  from assms obtain cur ip where
    ip: "initial_position s = Some ip" and cur: "current_position h = Inr cur"
    by (auto simp add: detect_gesture_def detect_gesture_body_def
        split: sum.splits option.splits)
  let ?s1 = "track cur ip s"
  from assms ip cur consider
      (swipe) "swipe_test t ?s1 = Some g" "s' = fired t ?s1"
    | (volume) "volume_test t ?s1 = Some g" "s' = fired t ?s1"
    | (pose) "pose_test t h ?s1 = Inr (Some g)" "s' = fired t ?s1"
    by (auto simp add: detect_gesture_def detect_gesture_body_def Let_def
        split: sum.splits option.splits)
  then show ?thesis
  proof cases
    case swipe
    with swipe_test_Some [OF swipe(1)] show ?thesis
      by (auto simp add: fired_def cooldown_of_def static_gesture_def)
  next
    case volume
    with volume_test_Some [OF volume(1)] show ?thesis
      by (auto simp add: fired_def cooldown_of_def static_gesture_def)
  next
    case pose
    with pose_test_Some [OF pose(1)] show ?thesis
      by (auto simp add: fired_def cooldown_of_def static_gesture_def)
  qed
qed

lemma detect_gesture_None_time:
  "detect_gesture t h s = (None, s') \<Longrightarrow> last_gesture_time s' = last_gesture_time s"
  by (auto simp add: detect_gesture_def detect_gesture_body_def Let_def
      split: sum.splits option.splits)

lemma classify_hands_Nil [simp]: "classify_hands [] s = (None, s)"
  by (simp add: classify_hands_def)

lemma classify_hands_Cons [simp]:
  "classify_hands ((t, h) # rest) s =
     (if length h < 21 then (None, s)
      else (case detect_gesture t h s of
              (Some g, s') \<Rightarrow> (Some g, s')
            | (None, s') \<Rightarrow> classify_hands rest s'))"
  by (simp add: classify_hands_def draw_landmarks_def split: prod.split option.split)

lemma classify_hands_None_time:
  "classify_hands obs s = (None, s') \<Longrightarrow> last_gesture_time s' = last_gesture_time s"
proof (induction obs arbitrary: s)
  case Nil then show ?case by simp
next
  case (Cons a obs)
  obtain t h where a: "a = (t, h)" by (cases a)
  obtain g s1 where d: "detect_gesture t h s = (g, s1)" by (cases "detect_gesture t h s")
  show ?case
  proof (cases "length h < 21")
    case True
    with Cons.prems a show ?thesis by simp
  next
    case False
    show ?thesis
    proof (cases g)
      case None
      with Cons.prems a d False have "classify_hands obs s1 = (None, s')" by simp
      from Cons.IH [OF this] detect_gesture_None_time [of t h s s1] d None show ?thesis by simp
    next
      case (Some g')
      with Cons.prems a d False show ?thesis by simp
    qed
  qed
qed

lemma classify_hands_Some:
  "classify_hands obs s = (Some g, s') \<Longrightarrow>
     initial_position s' = None \<and> movement_history s' = [] \<and> g \<noteq> Quit
     \<and> last_gesture_time s + cooldown_of g \<le> last_gesture_time s'
     \<and> (\<exists>h. (last_gesture_time s', h) \<in> set obs)"
proof (induction obs arbitrary: s)
  case Nil then show ?case by simp
next
  case (Cons a obs)
  obtain t h where a: "a = (t, h)" by (cases a)
  obtain r s1 where d: "detect_gesture t h s = (r, s1)" by (cases "detect_gesture t h s")
  have len: "\<not> length h < 21"
    using Cons.prems a by (auto split: if_splits)
  show ?case
  proof (cases r)
    case None
    with Cons.prems a d len have *: "classify_hands obs s1 = (Some g, s')" by simp
    have "last_gesture_time s1 = last_gesture_time s"
      using detect_gesture_None_time d None by simp
    with Cons.IH [OF *] show ?thesis by auto
  next
    case (Some g')
    with Cons.prems a d len have "g' = g" "s1 = s'" by simp_all
    with detect_gesture_Some [of t h s g s'] d Some a show ?thesis by auto
  qed
qed

text \<open>The emitting call is the one whose gesture the loop returns, at the time it stores.\<close>

lemma emitting_call_eq:
  "emitting_call obs s =
     (case classify_hands obs s of
        (Some g, s') \<Rightarrow> Some (last_gesture_time s', g)
      | (None, s') \<Rightarrow> None)"
proof (induction obs arbitrary: s)
  case Nil then show ?case by simp
next
  case (Cons a obs)
  obtain t h where a: "a = (t, h)" by (cases a)
  obtain r s1 where d: "detect_gesture t h s = (r, s1)" by (cases "detect_gesture t h s")
  show ?case
  proof (cases "length h < 21")
    case True
    with a show ?thesis by (simp add: draw_landmarks_def)
  next
    case False
    show ?thesis
    proof (cases r)
      case None
      with Cons.IH [of s1] a d False show ?thesis by (simp add: draw_landmarks_def)
    next
      case (Some g)
      with detect_gesture_Some [of t h s g s1] d have "last_gesture_time s1 = t" by simp
      with a d False Some show ?thesis by (simp add: draw_landmarks_def)
    qed
  qed
qed

lemma detect_first:
  assumes "initial_position s = None" "current_position h = Inr p"
  shows "detect_gesture t h s = (None, s\<lparr>initial_position := Some p, movement_history := []\<rparr>)"
  using assms by (simp add: detect_gesture_def detect_gesture_body_def)

lemma track_history_short:
  "length (movement_history s) < 2 \<Longrightarrow>
   movement_history (track cur ip s) = movement_history s @ [(fst cur - fst ip, snd cur - snd ip)]"
  by (simp add: track_def Let_def movement_history_size_def)

lemma track_fields [simp]:
  "initial_position (track cur ip s) = initial_position s"
  "frame_skip_count (track cur ip s) = frame_skip_count s"
  "last_gesture (track cur ip s) = last_gesture s"
  by (simp_all add: track_def Let_def)

lemma motion_tests_short:
  "length (movement_history s) < min_swipe_frames \<Longrightarrow> swipe_test t s = None"
  "length (movement_history s) < min_swipe_frames \<Longrightarrow> volume_test t s = None"
  by (simp_all add: swipe_test_def volume_test_def)

text \<open>With the motion tests silent, the call is decided by the pose test.\<close>
lemma detect_by_pose:
  assumes "initial_position s = Some ip" "current_position h = Inr cur"
      and "swipe_test t (track cur ip s) = None" "volume_test t (track cur ip s) = None"
  shows "detect_gesture t h s =
     (case pose_test t h (track cur ip s) of
        Inl e \<Rightarrow> (None, track cur ip s)
      | Inr (Some g) \<Rightarrow> (Some g, fired t (track cur ip s))
      | Inr None \<Rightarrow> (None, (track cur ip s)\<lparr>initial_position := Some cur\<rparr>))"
  using assms
  by (simp add: detect_gesture_def detect_gesture_body_def Let_def split: sum.split option.split)

lemma pose_test_avg:
  assumes "avg_dist h 0 = Inr a" "t - last_gesture_time s \<ge> play_pause_cooldown"
  shows "pose_test t h s = Inr (if a > 0.12 then Some Play else if a < 0.06 then Some Pause else None)"
  using assms by (simp add: pose_test_def is_open_palm_def is_closed_fist_def)

lemma pose_test_early:
  "t - last_gesture_time s < play_pause_cooldown \<Longrightarrow> pose_test t h s = Inr None"
  by (simp add: pose_test_def)

text \<open>A hand with too few landmarks: the reads that raise.\<close>

lemma current_position_short: "length h < 5 \<Longrightarrow> current_position h = Inl IndexError"
  by (simp add: current_position_def landmark_at_def split: sum.split)

lemma tip_distances_short:
  "tip_distances h w is = Inr ds \<Longrightarrow> \<forall>i \<in> set is. i < length h"
  by (induction "is" arbitrary: ds) (auto simp add: landmark_at_def split: if_splits sum.splits)

lemma avg_dist_short: "length h < 21 \<Longrightarrow> avg_dist h 0 = Inr a \<Longrightarrow> False"
proof -
  assume len: "length h < 21" and a: "avg_dist h 0 = Inr a"
  from a obtain w ds where "tip_distances h w fingertip_indices = Inr ds"
    by (auto simp add: avg_dist_def split: sum.splits)
  from tip_distances_short [OF this] len show False
    by (simp add: fingertip_indices_def)
qed

lemma pose_test_short:
  "length h < 21 \<Longrightarrow> pose_test t h s \<noteq> Inr (Some g)"
  using avg_dist_short [of h]
  by (auto simp add: pose_test_def is_open_palm_def is_closed_fist_def
      split: if_splits sum.splits bool.splits)

lemma detect_gesture_malformed: "length h < 5 \<Longrightarrow> detect_gesture t h s = (None, s)"
  by (simp add: detect_gesture_def detect_gesture_body_def current_position_short)

lemma detect_gesture_static:
  assumes "detect_gesture t h s = (Some g, s')" "g = Play \<or> g = Pause"
  shows "\<exists>s1. pose_test t h s1 = Inr (Some g)"
proof -
  from assms(1) obtain cur ip where
    ip: "initial_position s = Some ip" and cur: "current_position h = Inr cur"
    by (auto simp add: detect_gesture_def detect_gesture_body_def
        split: sum.splits option.splits)
  from assms ip cur swipe_test_Some [of t "track cur ip s" g] volume_test_Some [of t "track cur ip s" g]
  have "pose_test t h (track cur ip s) = Inr (Some g)"
    by (auto simp add: detect_gesture_def detect_gesture_body_def Let_def
        split: sum.splits option.splits)
  then show ?thesis ..
qed

lemma detect_gesture_None_reference:
  "detect_gesture t h s = (None, s') \<Longrightarrow> initial_position s \<noteq> None \<Longrightarrow> initial_position s' \<noteq> None"
  by (auto simp add: detect_gesture_def detect_gesture_body_def Let_def
      split: sum.splits option.splits)

lemma track_history_length:
  "length (movement_history (track cur ip s)) \<le> length (movement_history s) + 1"
  by (simp add: track_def Let_def)

lemma detect_history_cases:
  "movement_history (snd (detect_gesture t h s)) = []
   \<or> movement_history (snd (detect_gesture t h s)) = movement_history s
   \<or> (\<exists>cur ip. movement_history (snd (detect_gesture t h s)) = movement_history (track cur ip s))"
  by (simp add: detect_gesture_def detect_gesture_body_def Let_def fired_def
      split: sum.split option.split) blast

lemma detect_history_grow:
  "length (movement_history (snd (detect_gesture t h s))) \<le> length (movement_history s) + 1"
  using detect_history_cases [of t h s] track_history_length [of _ _ s]
  by (elim disjE exE) simp_all

lemma detect_motion_needs_window:
  assumes "detect_gesture t h s = (Some g, s')" "motion_gesture g"
  shows "length (movement_history s) + 1 \<ge> min_swipe_frames"
proof -
  from assms(1) obtain cur ip where
    ip: "initial_position s = Some ip" and cur: "current_position h = Inr cur"
    by (auto simp add: detect_gesture_def detect_gesture_body_def
        split: sum.splits option.splits)
  let ?s1 = "track cur ip s"
  have fires: "swipe_test t ?s1 \<noteq> None \<or> volume_test t ?s1 \<noteq> None"
  proof (rule ccontr)
    assume "\<not> ?thesis"
    then have "swipe_test t ?s1 = None" "volume_test t ?s1 = None" by simp_all
    from detect_by_pose [OF ip cur this] assms(1)
    have "pose_test t h ?s1 = Inr (Some g)"
      by (auto split: sum.splits option.splits)
    from pose_test_Some [OF this] assms(2) show False
      by (auto simp add: motion_gesture_def)
  qed
  have "length (movement_history ?s1) \<ge> min_swipe_frames"
  proof (rule ccontr)
    assume "\<not> ?thesis"
    then have "length (movement_history ?s1) < min_swipe_frames" by simp
    then have "swipe_test t ?s1 = None" "volume_test t ?s1 = None"
      by (simp_all add: motion_tests_short)
    with fires show False by simp
  qed
  with track_history_length [of cur ip s] show ?thesis by simp
qed

lemma pose_test_neutral:
  assumes "avg_dist h 0 = Inr a" "0.06 \<le> a" "a \<le> 0.12"
  shows "pose_test t h s = Inr None"
  using assms by (simp add: pose_test_def is_open_palm_def is_closed_fist_def)

text \<open>A call on a hand in neither pose, with fewer than two samples stored.\<close>
lemma detect_neutral_short:
  assumes "initial_position s = Some ip" "current_position h = Inr cur"
      and "length (movement_history s) < 2"
      and "avg_dist h 0 = Inr a" "0.06 \<le> a" "a \<le> 0.12"
  shows "detect_gesture t h s =
     (None, s\<lparr>movement_history := movement_history s @ [(fst cur - fst ip, snd cur - snd ip)],
              debug_log_counter := debug_log_counter s + 1,
              initial_position := Some cur\<rparr>)"
proof -
  have len: "length (movement_history (track cur ip s)) < min_swipe_frames"
    using assms(3) by (simp add: track_history_short min_swipe_frames_def)
  have tr: "track cur ip s =
      s\<lparr>movement_history := movement_history s @ [(fst cur - fst ip, snd cur - snd ip)],
        debug_log_counter := debug_log_counter s + 1\<rparr>"
    using assms(3) by (simp add: track_def Let_def movement_history_size_def)
  show ?thesis
    using detect_by_pose [OF assms(1,2) motion_tests_short(1) [OF len] motion_tests_short(2) [OF len]]
      pose_test_neutral [OF assms(4-6), of t "track cur ip s"]
    by (simp add: tr)
qed

subsection \<open>The frame loop\<close>

lemma process_frame_skipped:
  "(frame_skip_count s + 1) mod process_every_n_frames \<noteq> 0 \<Longrightarrow>
   process_frame obs s = (None, s\<lparr>frame_skip_count := frame_skip_count s + 1\<rparr>)"
  by (simp add: process_frame_def process_frame_body_def Let_def)

lemma process_frame_disj:
  "(frame_skip_count s + 1) mod process_every_n_frames \<noteq> 0
     \<and> process_frame obs s = (None, s\<lparr>frame_skip_count := frame_skip_count s + 1\<rparr>)
   \<or> (\<exists>e. quit_test (map snd obs) = Inl e)
     \<and> process_frame obs s = (None, s\<lparr>frame_skip_count := frame_skip_count s + 1\<rparr>)
   \<or> quit_test (map snd obs) = Inr True
     \<and> process_frame obs s = (Some Quit, s\<lparr>frame_skip_count := frame_skip_count s + 1\<rparr>)
   \<or> obs = [] \<and> process_frame obs s =
       (None, s\<lparr>frame_skip_count := frame_skip_count s + 1, initial_position := None,
                movement_history := []\<rparr>)
   \<or> obs \<noteq> [] \<and> quit_test (map snd obs) = Inr False \<and>
       process_frame obs s = classify_hands obs (s\<lparr>frame_skip_count := frame_skip_count s + 1\<rparr>)"
  by (simp add: process_frame_def process_frame_body_def classify_hands_def Let_def
      split: sum.split bool.split prod.split)

lemma process_frame_cases:
  obtains (skipped) "(frame_skip_count s + 1) mod process_every_n_frames \<noteq> 0"
      "process_frame obs s = (None, s\<lparr>frame_skip_count := frame_skip_count s + 1\<rparr>)"
  | (error) e where "quit_test (map snd obs) = Inl e"
      "process_frame obs s = (None, s\<lparr>frame_skip_count := frame_skip_count s + 1\<rparr>)"
  | (quit) "quit_test (map snd obs) = Inr True"
      "process_frame obs s = (Some Quit, s\<lparr>frame_skip_count := frame_skip_count s + 1\<rparr>)"
  | (nohand) "obs = []" "process_frame obs s =
       (None, s\<lparr>frame_skip_count := frame_skip_count s + 1, initial_position := None,
                movement_history := []\<rparr>)"
  | (hands) "obs \<noteq> []" "quit_test (map snd obs) = Inr False"
      "process_frame obs s = classify_hands obs (s\<lparr>frame_skip_count := frame_skip_count s + 1\<rparr>)"
  using process_frame_disj [of s obs] by blast

lemma process_frame_None_time:
  assumes "process_frame obs s = (r, s')" "r = None \<or> r = Some Quit"
  shows "last_gesture_time s' = last_gesture_time s"
proof (cases obs s rule: process_frame_cases)
  case hands
  with assms classify_hands_None_time [of obs "s\<lparr>frame_skip_count := frame_skip_count s + 1\<rparr>" s']
    classify_hands_Some [of obs "s\<lparr>frame_skip_count := frame_skip_count s + 1\<rparr>" Quit s']
  show ?thesis by auto
qed (use assms in auto)

lemma process_frame_Some:
  assumes "process_frame obs s = (Some g, s')" "g \<noteq> Quit"
  shows "initial_position s' = None \<and> movement_history s' = []
     \<and> last_gesture_time s + cooldown_of g \<le> last_gesture_time s'
     \<and> (\<exists>h. (last_gesture_time s', h) \<in> set obs)"
proof (cases obs s rule: process_frame_cases)
  case hands
  with assms classify_hands_Some [of obs "s\<lparr>frame_skip_count := frame_skip_count s + 1\<rparr>" g s']
  show ?thesis by auto
qed (use assms in auto)

lemma process_frame_Quit:
  assumes "process_frame obs s = (Some Quit, s')"
  shows "s' = s\<lparr>frame_skip_count := frame_skip_count s + 1\<rparr>"
proof (cases obs s rule: process_frame_cases)
  case hands
  with assms classify_hands_Some [of obs "s\<lparr>frame_skip_count := frame_skip_count s + 1\<rparr>" Quit s']
  show ?thesis by auto
qed (use assms in auto)

lemma classify_hands_append:
  "classify_hands pre s = (Some g, s') \<Longrightarrow> classify_hands (pre @ rest) s = (Some g, s')"
proof (induction pre arbitrary: s)
  case Nil then show ?case by simp
next
  case (Cons a pre)
  obtain t h where a: "a = (t, h)" by (cases a)
  obtain r s1 where d: "detect_gesture t h s = (r, s1)" by (cases "detect_gesture t h s")
  have len: "\<not> length h < 21"
    using Cons.prems a by (auto split: if_splits)
  show ?case
  proof (cases r)
    case None
    with Cons.prems a d len have "classify_hands pre s1 = (Some g, s')" by simp
    from Cons.IH [OF this] a d None len show ?thesis by simp
  next
    case (Some g')
    with Cons.prems a d len show ?thesis by simp
  qed
qed

lemma quit_test_prefix:
  assumes "quit_test (map snd (pre @ rest)) = Inr False"
  shows "quit_test (map snd pre) = Inr False"
proof (cases "length pre \<ge> 2")
  case True
  then obtain a b pre' where "pre = a # b # pre'"
    by (cases pre; cases "tl pre") simp_all
  with assms show ?thesis by (simp add: quit_test_def split: sum.splits)
next
  case False
  then show ?thesis by (simp add: quit_test_def)
qed

lemma process_frame_single:
  "(frame_skip_count s + 1) mod process_every_n_frames = 0 \<Longrightarrow> length h = 21 \<Longrightarrow>
   process_frame [(t, h)] s = detect_gesture t h (s\<lparr>frame_skip_count := frame_skip_count s + 1\<rparr>)"
  by (simp add: process_frame_def process_frame_body_def Let_def quit_test_def
      draw_landmarks_def split: prod.split option.split)

lemma process_frame_pair:
  assumes "(frame_skip_count s + 1) mod process_every_n_frames = 0"
      and "quit_test [h1, h2] = Inr False"
      and "length h1 = 21" and "length h2 = 21"
  shows "process_frame [(t1, h1), (t2, h2)] s =
     (case detect_gesture t1 h1 (s\<lparr>frame_skip_count := frame_skip_count s + 1\<rparr>) of
        (Some g, s') \<Rightarrow> (Some g, s')
      | (None, s') \<Rightarrow> detect_gesture t2 h2 s')"
  using assms
  by (simp add: process_frame_def process_frame_body_def Let_def draw_landmarks_def
      split: prod.split option.split)

lemma process_frame_quit:
  assumes "(frame_skip_count s + 1) mod process_every_n_frames = 0"
      and "lm_y wrist1 < 0.3" and "lm_y wrist2 < 0.3"
  shows "process_frame ((t1, wrist1 # r1) # (t2, wrist2 # r2) # rest) s
         = (Some Quit, s\<lparr>frame_skip_count := frame_skip_count s + 1\<rparr>)"
  using assms
  by (simp add: process_frame_def process_frame_body_def Let_def quit_test_def landmark_at_def)

lemma process_frame_nohand:
  assumes "(frame_skip_count s + 1) mod process_every_n_frames = 0"
  shows "process_frame [] s =
      (None, s\<lparr>frame_skip_count := frame_skip_count s + 1, initial_position := None,
               movement_history := []\<rparr>)"
  using assms by (simp add: process_frame_def process_frame_body_def Let_def quit_test_def)

subsection \<open>The window bound\<close>

lemma track_len: "length (movement_history s) \<le> movement_history_size \<Longrightarrow>
  length (movement_history (track cur ip s)) \<le> movement_history_size"
  by (simp add: track_def Let_def)

lemma detect_len: "length (movement_history s) \<le> movement_history_size \<Longrightarrow>
  length (movement_history (snd (detect_gesture t h s))) \<le> movement_history_size"
  by (auto simp add: detect_gesture_def detect_gesture_body_def Let_def fired_def track_len
      split: sum.splits option.splits)

lemma classify_hands_len: "length (movement_history s) \<le> movement_history_size \<Longrightarrow>
  length (movement_history (snd (classify_hands obs s))) \<le> movement_history_size"
proof (induction obs arbitrary: s)
  case Nil then show ?case by simp
next
  case (Cons a obs)
  obtain t h where a: "a = (t, h)" by (cases a)
  obtain g s' where d: "detect_gesture t h s = (g, s')" by (cases "detect_gesture t h s")
  have "length (movement_history s') \<le> movement_history_size"
    using detect_len [OF Cons.prems, of t h] d by simp
  then show ?case using Cons.IH [of s'] Cons.prems a d by (cases g) simp_all
qed

lemma process_frame_len: "length (movement_history s) \<le> movement_history_size \<Longrightarrow>
  length (movement_history (snd (process_frame obs s))) \<le> movement_history_size"
  using classify_hands_len [of "s\<lparr>frame_skip_count := frame_skip_count s + 1\<rparr>" obs]
  by (cases obs s rule: process_frame_cases) simp_all

lemma run_len: "length (movement_history s) \<le> movement_history_size \<Longrightarrow>
  length (movement_history (run_frames fs s)) \<le> movement_history_size"
  by (induction fs arbitrary: s) (simp_all add: process_frame_len)

subsection \<open>Cooldowns along a run\<close>

lemma cooldown_of_pos: "0 < cooldown_of g"
  by (simp add: cooldown_of_def play_pause_cooldown_def gesture_cooldown_def)

text \<open>A frame emits exactly the gesture that \<^verbatim>\<open>process_frame\<close> returns, Quit apart.\<close>

lemma frame_emission_eq:
  "frame_emission obs s =
     (case process_frame obs s of
        (Some g, s') \<Rightarrow> if g = Quit then None else Some (last_gesture_time s', g)
      | (None, s') \<Rightarrow> None)"
proof -
  let ?s1 = "s\<lparr>frame_skip_count := frame_skip_count s + 1\<rparr>"
  show ?thesis
  proof (cases "(frame_skip_count s + 1) mod process_every_n_frames \<noteq> 0")
    case True
    then show ?thesis
      by (simp add: frame_emission_def process_frame_skipped Let_def)
  next
    case processed: False
    show ?thesis
    proof (cases "quit_test (map snd obs)")
      case (Inl e)
      with processed show ?thesis
        by (simp add: frame_emission_def process_frame_def process_frame_body_def Let_def)
    next
      case (Inr q)
      show ?thesis
      proof (cases q)
        case True
        with processed Inr show ?thesis
          by (simp add: frame_emission_def process_frame_def process_frame_body_def Let_def)
      next
        case False
        show ?thesis
        proof (cases "obs = []")
          case True
          with processed Inr False show ?thesis
            by (simp add: frame_emission_def process_frame_def process_frame_body_def Let_def)
        next
          case nonempty: False
          have pf: "process_frame obs s = classify_hands obs ?s1"
            using processed Inr False nonempty
            by (simp add: process_frame_def process_frame_body_def classify_hands_def Let_def
                split: sum.split prod.split)
          have fe: "frame_emission obs s = emitting_call obs ?s1"
            using processed Inr False by (simp add: frame_emission_def Let_def)
          obtain r s' where c: "classify_hands obs ?s1 = (r, s')"
            by (cases "classify_hands obs ?s1")
          show ?thesis
          proof (cases r)
            case None
            with c pf fe show ?thesis by (simp add: emitting_call_eq)
          next
            case (Some g)
            with classify_hands_Some [of obs ?s1 g s'] c have "g \<noteq> Quit" by simp
            with Some c pf fe show ?thesis by (simp add: emitting_call_eq)
          qed
        qed
      qed
    qed
  qed
qed

text \<open>The time of an emission is the clock value of one of the hands of its frame.\<close>

lemma emitting_call_clock:
  "emitting_call obs s = Some (t, g) \<Longrightarrow> \<exists>h. (t, h) \<in> set obs"
proof (induction obs arbitrary: s)
  case Nil then show ?case by simp
next
  case (Cons a obs)
  obtain t0 h0 where a: "a = (t0, h0)" by (cases a)
  obtain r s1 where d: "detect_gesture t0 h0 s = (r, s1)" by (cases "detect_gesture t0 h0 s")
  show ?case
  proof (cases r)
    case None
    with Cons.prems a d have "emitting_call obs s1 = Some (t, g)"
      by (simp split: sum.splits)
    from Cons.IH [OF this] show ?thesis by auto
  next
    case (Some g')
    with Cons.prems a d have "t = t0" by (simp split: sum.splits)
    with a show ?thesis by auto
  qed
qed

lemma frame_emission_clock:
  "frame_emission obs s = Some (t, g) \<Longrightarrow> \<exists>h. (t, h) \<in> set obs"
  using emitting_call_clock [of obs _ t g]
  by (auto simp add: frame_emission_def Let_def split: if_splits sum.splits bool.splits)

lemma frame_emission_skipped:
  "(frame_skip_count s + 1) mod process_every_n_frames \<noteq> 0 \<Longrightarrow> frame_emission obs s = None"
  by (simp add: frame_emission_def Let_def)

lemma frame_emission_single:
  "(frame_skip_count s + 1) mod process_every_n_frames = 0 \<Longrightarrow> length h = 21 \<Longrightarrow>
   frame_emission [(t, h)] s =
     (case detect_gesture t h (s\<lparr>frame_skip_count := frame_skip_count s + 1\<rparr>) of
        (Some g, s') \<Rightarrow> Some (t, g)
      | (None, s') \<Rightarrow> None)"
  by (simp add: frame_emission_def Let_def quit_test_def draw_landmarks_def
      split: prod.split option.split)

lemma emissions_chain: "chain (last_gesture_time s) (emissions fs s)"
proof (induction fs arbitrary: s)
  case Nil then show ?case by simp
next
  case (Cons obs fs)
  obtain r s' where p: "process_frame obs s = (r, s')" by (cases "process_frame obs s")
  show ?case
  proof (cases "r = None \<or> r = Some Quit")
    case True
    with process_frame_None_time [OF p True] Cons.IH [of s'] p show ?thesis
      by (auto simp add: frame_emission_eq)
  next
    case False
    then obtain g where g: "r = Some g" "g \<noteq> Quit" by auto
    with process_frame_Some [of obs s g s'] p Cons.IH [of s'] show ?thesis
      by (simp add: frame_emission_eq)
  qed
qed

lemma chain_lower: "chain lo es \<Longrightarrow> lo' \<le> lo \<Longrightarrow> chain lo' es"
  by (cases es) auto

lemma chain_mem: "chain lo es \<Longrightarrow> (t, g) \<in> set es \<Longrightarrow> lo + cooldown_of g \<le> t"
proof (induction es arbitrary: lo)
  case Nil then show ?case by simp
next
  case (Cons e es)
  obtain t0 g0 where e: "e = (t0, g0)" by (cases e)
  show ?case
  proof (cases "(t, g) = e")
    case True with Cons.prems e show ?thesis by simp
  next
    case False
    with Cons.prems e have "chain t0 es" "(t, g) \<in> set es" "lo + cooldown_of g0 \<le> t0" by auto
    with Cons.IH [of t0] cooldown_of_pos [of g0] show ?thesis by force
  qed
qed

lemma chain_append: "chain lo (xs @ (t, g) # ys) \<Longrightarrow> chain t ys"
  by (induction xs arbitrary: lo) auto

lemma chain_pair:
  assumes "chain lo es" "(t1, g1) \<in> set es" "(t2, g2) \<in> set es" "t1 < t2"
  shows "t1 + cooldown_of g2 \<le> t2"
proof -
  from assms(2) obtain xs ys where es: "es = xs @ (t1, g1) # ys"
    by (auto simp add: in_set_conv_decomp)
  with assms(1) have c1: "chain t1 ys" using chain_append by blast
  from es assms(3) assms(4) consider "(t2, g2) \<in> set xs" | "(t2, g2) \<in> set ys" by auto
  then show ?thesis
  proof cases
    case 1
    then obtain us vs where xs: "xs = us @ (t2, g2) # vs"
      by (auto simp add: in_set_conv_decomp)
    with es assms(1) have "chain t2 (vs @ (t1, g1) # ys)" using chain_append by simp
    from chain_mem [OF this, of t1 g1] cooldown_of_pos [of g1] assms(4) show ?thesis by simp
  next
    case 2
    from chain_mem [OF c1 2] show ?thesis .
  qed
qed

subsection \<open>Evaluating the concrete hands\<close>

lemma length_hand_of: "length (hand_of w tip) = 21"
  by (simp add: hand_of_def)

lemma landmark_at_hand_of:
  "landmark_at (hand_of w tip) 0 = Inr w"
  "landmark_at (hand_of w tip) 4 = Inr tip"
  "landmark_at (hand_of w tip) 8 = Inr tip"
  "landmark_at (hand_of w tip) 12 = Inr tip"
  "landmark_at (hand_of w tip) 16 = Inr tip"
  "landmark_at (hand_of w tip) 20 = Inr tip"
  by (simp_all add: landmark_at_def hand_of_def)

lemma current_position_hand_of:
  "current_position (hand_of w tip) = Inr ((lm_x w + lm_x tip) / 2, (lm_y w + lm_y tip) / 2)"
  by (simp add: current_position_def landmark_at_hand_of)

lemma avg_dist_hand_of:
  "avg_dist (hand_of w tip) 0 = Inr (sqrt ((lm_x tip - lm_x w)\<^sup>2 + (lm_y tip - lm_y w)\<^sup>2))"
  by (simp add: avg_dist_def fingertip_indices_def landmark_at_hand_of Let_def)

lemma avg_dist_level:
  "avg_dist (hand_of (pt a b) (pt c b)) 0 = Inr \<bar>c - a\<bar>"
  by (simp add: avg_dist_hand_of pt_def)

lemma current_position_level:
  "current_position (hand_of (pt a b) (pt c d)) = Inr ((a + c) / 2, (b + d) / 2)"
  by (simp add: current_position_hand_of pt_def)

lemma fixture_lengths [simp]:
  "length open_hand = 21" "length (neutral_hand a b) = 21" "length raised_hand = 21"
  by (simp_all add: open_hand_def neutral_hand_def raised_hand_def length_hand_of)

lemma open_hand_facts:
  "current_position open_hand = Inr (0.6, 0.5)"
  "avg_dist open_hand 0 = Inr 0.2"
  "is_open_palm open_hand = Inr True"
  by (simp_all add: open_hand_def current_position_level avg_dist_level is_open_palm_def)

lemma neutral_hand_facts:
  "current_position (neutral_hand a b) = Inr (a, b)"
  "avg_dist (neutral_hand a b) 0 = Inr 0.1"
  "is_open_palm (neutral_hand a b) = Inr False"
  "is_closed_fist (neutral_hand a b) = Inr False"
  by (simp_all add: neutral_hand_def current_position_level avg_dist_level is_open_palm_def
      is_closed_fist_def)

lemma quit_test_level:
  "quit_test [hand_of (pt a b) t1, hand_of (pt c d) t2] = Inr (b < 0.3 \<and> d < 0.3)"
  by (simp add: quit_test_def landmark_at_hand_of pt_def)

lemma detect_open_play:
  assumes "initial_position s = Some ip" "length (movement_history s) < 2"
      and "t - last_gesture_time s \<ge> play_pause_cooldown"
  shows "detect_gesture t open_hand s = (Some Play, fired t (track (0.6, 0.5) ip s))"
proof -
  have len: "length (movement_history (track (0.6, 0.5) ip s)) < min_swipe_frames"
    using assms(2) by (simp add: track_history_short min_swipe_frames_def)
  have "pose_test t open_hand (track (0.6, 0.5) ip s) = Inr (Some Play)"
    using assms(3) by (simp add: pose_test_avg [OF open_hand_facts(2)])
  with detect_by_pose [OF assms(1) open_hand_facts(1) motion_tests_short(1) [OF len]
      motion_tests_short(2) [OF len]]
  show ?thesis by simp
qed

lemma detect_neutral_eval:
  assumes "initial_position s \<noteq> None" "length (movement_history s) < 2"
  shows "detect_gesture t (neutral_hand a b) s =
     (None, s\<lparr>movement_history := movement_history s @
                 [(a - fst (the (initial_position s)), b - snd (the (initial_position s)))],
              debug_log_counter := debug_log_counter s + 1,
              initial_position := Some (a, b)\<rparr>)"
proof -
  from assms(1) obtain ip where ip: "initial_position s = Some ip" by auto
  have "(0.06::real) \<le> 0.1" "(0.1::real) \<le> 0.12" by simp_all
  from detect_neutral_short [OF ip neutral_hand_facts(1) assms(2) neutral_hand_facts(2) this, of t a b]
  show ?thesis by (simp add: ip)
qed

lemma detect_open_eval:
  assumes "initial_position s \<noteq> None" "length (movement_history s) < 2"
      and "t - last_gesture_time s \<ge> play_pause_cooldown"
  shows "detect_gesture t open_hand s =
     (Some Play, fired t (s\<lparr>debug_log_counter := debug_log_counter s + 1\<rparr>))"
proof -
  from assms(1) obtain ip where ip: "initial_position s = Some ip" by auto
  have "fired t (track (0.6, 0.5) ip s)
        = fired t (s\<lparr>debug_log_counter := debug_log_counter s + 1\<rparr>)"
    by (simp add: fired_def track_def Let_def)
  with detect_open_play [OF ip assms(2,3)] show ?thesis by simp
qed

lemma detect_neutral_swipe_right:
  assumes "initial_position s \<noteq> None" and "length (movement_history s) = 2"
      and "a - fst (the (initial_position s)) - fst (hd (movement_history s)) > 0.08"
      and "b - snd (the (initial_position s)) = snd (hd (movement_history s))"
      and "t - last_gesture_time s \<ge> gesture_cooldown"
  shows "detect_gesture t (neutral_hand a b) s =
     (Some SwipeRight, fired t (s\<lparr>debug_log_counter := debug_log_counter s + 1\<rparr>))"
proof -
  from assms(1) obtain ip where ip: "initial_position s = Some ip" by auto
  from assms(2) obtain m1 m2 where h: "movement_history s = [m1, m2]"
    by (cases "movement_history s"; cases "tl (movement_history s)") auto
  let ?s1 = "track (a, b) ip s"
  have tr: "movement_history ?s1 = [m1, m2, (a - fst ip, b - snd ip)]"
    by (simp add: track_def Let_def h movement_history_size_def)
  have sw: "swipe_test t ?s1 = Some SwipeRight"
    using assms(3,4,5) ip h
    by (simp add: swipe_test_def tr net_displacement_def min_swipe_frames_def Let_def)
  have f: "fired t ?s1 = fired t (s\<lparr>debug_log_counter := debug_log_counter s + 1\<rparr>)"
    by (simp add: fired_def track_def Let_def)
  show ?thesis
    using sw f ip
    by (simp add: detect_gesture_def detect_gesture_body_def neutral_hand_facts Let_def)
qed

lemma tracking_reachable:
  "run_frames [[], [], [], [(1000, neutral_hand 0.5 0.5)], [], [], [],
               [(1000.5, neutral_hand 0.6 0.5)], [], [], []] init_detector = tracking"
  by (simp add: process_frame_skipped process_frame_single detect_first detect_neutral_eval
      neutral_hand_facts init_detector_def process_every_n_frames_def tracking_def)

lemma armed_reachable: "run_frames [[], [], []] init_detector = armed"
  by (simp add: process_frame_skipped init_detector_def process_every_n_frames_def armed_def)

subsection \<open>Hands with too few or too many landmarks\<close>

lemma process_frame_few_landmarks:
  assumes "(frame_skip_count s + 1) mod process_every_n_frames = 0"
      and "length h < 21" and "quit_test (h # map snd rest) \<noteq> Inr True"
  shows "process_frame ((t, h) # rest) s = (None, s\<lparr>frame_skip_count := frame_skip_count s + 1\<rparr>)"
  using assms
  by (simp add: process_frame_def process_frame_body_def Let_def draw_landmarks_def
      split: sum.split bool.split)

lemma landmark_at_take: "i < 21 \<Longrightarrow> landmark_at (take 21 h) i = landmark_at h i"
  by (simp add: landmark_at_def)

lemma tip_distances_take:
  "\<forall>i \<in> set is. i < 21 \<Longrightarrow> tip_distances (take 21 h) w is = tip_distances h w is"
  by (induction "is") (simp_all add: landmark_at_take cong: sum.case_cong)

lemma avg_dist_take: "avg_dist (take 21 h) 0 = avg_dist h 0"
  by (simp add: avg_dist_def landmark_at_take tip_distances_take fingertip_indices_def
      cong: sum.case_cong)

lemma current_position_take: "current_position (take 21 h) = current_position h"
  by (simp add: current_position_def landmark_at_take cong: sum.case_cong)

lemma pose_test_take: "pose_test t (take 21 h) s = pose_test t h s"
proof -
  have a: "is_open_palm (take 21 h) = is_open_palm h"
    and b: "is_closed_fist (take 21 h) = is_closed_fist h"
    by (simp_all add: is_open_palm_def is_closed_fist_def avg_dist_take)
  show ?thesis unfolding pose_test_def a b ..
qed

lemma detect_gesture_take: "detect_gesture t (take 21 h) s = detect_gesture t h s"
proof -
  have "detect_gesture_body t (take 21 h) s = detect_gesture_body t h s"
    unfolding detect_gesture_body_def current_position_take pose_test_take ..
  then show ?thesis by (simp add: detect_gesture_def)
qed

lemma draw_landmarks_take: "draw_landmarks (take 21 h) = draw_landmarks h"
  by (simp add: draw_landmarks_def)

lemma detect_hands_take: "detect_hands (map (apsnd (take 21)) obs) s = detect_hands obs s"
proof (induction obs arbitrary: s)
  case Nil then show ?case by simp
next
  case (Cons a obs)
  obtain t h where a: "a = (t, h)" by (cases a)
  show ?case
    using Cons.IH a
    by (simp add: draw_landmarks_take detect_gesture_take split: sum.split prod.split option.split)
qed

lemma quit_test_take: "quit_test (map snd (map (apsnd (take 21)) obs)) = quit_test (map snd obs)"
proof (cases "length obs \<ge> 2")
  case True
  then obtain a b rest where "obs = a # b # rest"
    by (cases obs; cases "tl obs") simp_all
  then show ?thesis
    by (cases a; cases b) (simp add: quit_test_def landmark_at_take cong: sum.case_cong)
next
  case False
  then show ?thesis by (simp add: quit_test_def)
qed

lemma process_frame_take:
  "process_frame (map (apsnd (take 21)) obs) s = process_frame obs s"
proof (cases "obs = []")
  case True
  then show ?thesis by simp
next
  case False
  then have ne: "map (apsnd (take 21)) obs \<noteq> []" by simp
  have "process_frame_body (map (apsnd (take 21)) obs) s = process_frame_body obs s"
    unfolding process_frame_body_def quit_test_take detect_hands_take if_P [OF ne] if_P [OF False] ..
  then show ?thesis by (simp add: process_frame_def)
qed

lemma long_hand_take: "take 21 long_hand = open_hand" "length long_hand = 22"
  by (simp_all add: long_hand_def)

lemma long_hand_play:
  "process_frame [(1001, long_hand)] tracking
     = (Some Play, tracking\<lparr>frame_skip_count := 12, debug_log_counter := 2,
                            last_gesture_time := 1001, initial_position := None,
                            movement_history := []\<rparr>)"
proof -
  have "process_frame [(1001, long_hand)] tracking = process_frame [(1001, open_hand)] tracking"
    using process_frame_take [of "[(1001, long_hand)]" tracking] by (simp add: long_hand_take)
  then show ?thesis
    by (simp add: process_frame_single detect_open_eval fired_def tracking_def
        process_every_n_frames_def play_pause_cooldown_def)
qed

subsection \<open>Coordinates that are not finite\<close>

lemma primed_reachable:
  "run_frames [[(1000, neutral_hand 0.6 0.5)], [], [], []] tracking = primed"
  by (simp add: process_frame_skipped process_frame_single detect_neutral_eval
      tracking_def primed_def process_every_n_frames_def)

lemma fp_track_reference [simp]:
  "fp_initial_position (fp_track cur ip s) = fp_initial_position s"
  by (simp add: fp_track_def Let_def)

lemma fp_detect_gesture_None_reference:
  "fp_detect_gesture t h s = (None, s') \<Longrightarrow> fp_initial_position s \<noteq> None
   \<Longrightarrow> fp_initial_position s' \<noteq> None"
  by (auto simp add: fp_detect_gesture_def fp_detect_gesture_body_def Let_def
      split: sum.splits option.splits)

lemma fp_hand_landmarks:
  "fp_landmark_at (fp_hand_with_wrist_x v) 0 = Inr \<lparr>fp_x = v, fp_y = Finite 0.5\<rparr>"
  "fp_landmark_at (fp_hand_with_wrist_x v) 4 = Inr \<lparr>fp_x = Finite 0.7, fp_y = Finite 0.5\<rparr>"
  "fp_landmark_at (fp_hand_with_wrist_x v) 8 = Inr \<lparr>fp_x = Finite 0.7, fp_y = Finite 0.5\<rparr>"
  "fp_landmark_at (fp_hand_with_wrist_x v) 12 = Inr \<lparr>fp_x = Finite 0.7, fp_y = Finite 0.5\<rparr>"
  "fp_landmark_at (fp_hand_with_wrist_x v) 16 = Inr \<lparr>fp_x = Finite 0.7, fp_y = Finite 0.5\<rparr>"
  "fp_landmark_at (fp_hand_with_wrist_x v) 20 = Inr \<lparr>fp_x = Finite 0.7, fp_y = Finite 0.5\<rparr>"
  by (simp_all add: fp_landmark_at_def fp_hand_with_wrist_x_def open_hand_def hand_of_def
      fp_of_landmark_def pt_def)

lemma fp_nan_hand:
  "fp_detect_gesture 1001 (fp_hand_with_wrist_x NaN) (fp_of_detector tracking)
   = (None, (fp_of_detector tracking)
        \<lparr>fp_movement_history := [(Finite 0.1, Finite 0), (NaN, Finite 0)],
         fp_debug_log_counter := 2,
         fp_initial_position := Some (NaN, Finite 0.5)\<rparr>)"
  by (simp add: fp_detect_gesture_def fp_detect_gesture_body_def fp_current_position_def
      fp_hand_landmarks fp_of_detector_def fp_of_point_def tracking_def fp_track_def Let_def
      fp_sub_def fp_swipe_test_def fp_volume_test_def fp_pose_test_def fp_is_open_palm_def
      fp_is_closed_fist_def fp_avg_dist_def fingertip_indices_def movement_history_size_def
      min_swipe_frames_def play_pause_cooldown_def)

lemma fp_inf_hand:
  "fp_detect_gesture 1001 (fp_hand_with_wrist_x PosInf) (fp_of_detector primed)
   = (Some SwipeRight, (fp_of_detector primed)
        \<lparr>fp_debug_log_counter := 3, fp_last_gesture_time := 1001,
         fp_initial_position := None, fp_movement_history := []\<rparr>)"
  by (simp add: fp_detect_gesture_def fp_detect_gesture_body_def fp_current_position_def
      fp_hand_landmarks fp_of_detector_def fp_of_point_def primed_def fp_track_def Let_def
      fp_sub_def fp_swipe_test_def fp_net_displacement_def fp_fired_def fp_inf_def
      movement_history_size_def min_swipe_frames_def gesture_cooldown_def)

lemma fp_landmark_at_finite:
  "fp_landmark_at (map fp_of_landmark h) i = map_sum id fp_of_landmark (landmark_at h i)"
  by (simp add: fp_landmark_at_def landmark_at_def)

lemma fp_of_landmark_sel [simp]:
  "fp_x (fp_of_landmark l) = Finite (lm_x l)" "fp_y (fp_of_landmark l) = Finite (lm_y l)"
  by (simp_all add: fp_of_landmark_def)

lemma fp_current_position_finite:
  "fp_current_position (map fp_of_landmark h) = map_sum id fp_of_point (current_position h)"
  by (cases "landmark_at h 0"; cases "landmark_at h 4")
     (simp_all add: fp_current_position_def current_position_def fp_landmark_at_finite
       fp_of_point_def)

lemma fp_tip_distances_finite:
  "fp_tip_distances (map fp_of_landmark h) (fp_of_landmark w) is
   = map_sum id (map Finite) (tip_distances h w is)"
proof (induction "is")
  case Nil
  then show ?case by simp
next
  case (Cons i "is")
  then show ?case
    by (cases "landmark_at h i"; cases "tip_distances h w is")
       (simp_all add: fp_landmark_at_finite fp_sub_def Let_def power2_eq_square)
qed

lemma tip_distances_length: "tip_distances h w is = Inr ds \<Longrightarrow> length ds = length is"
  by (induction "is" arbitrary: ds) (auto split: sum.splits)

lemma foldl_fp_add_finite: "foldl fp_add (Finite a) (map Finite ds) = Finite (a + sum_list ds)"
  by (induction ds arbitrary: a) (simp_all add: add.assoc)

lemma fp_avg_dist_finite:
  "fp_avg_dist (map fp_of_landmark h) 0 = map_sum id Finite (avg_dist h 0)"
proof (cases "landmark_at h 0")
  case (Inl e)
  then show ?thesis by (simp add: fp_avg_dist_def avg_dist_def fp_landmark_at_finite)
next
  case (Inr w)
  show ?thesis
  proof (cases "tip_distances h w fingertip_indices")
    case (Inl e)
    with Inr show ?thesis
      by (simp add: fp_avg_dist_def avg_dist_def fp_landmark_at_finite fp_tip_distances_finite)
  next
    case ds: (Inr ds)
    from tip_distances_length [OF ds] have "length ds = 5"
      by (simp add: fingertip_indices_def)
    with Inr ds show ?thesis
      by (simp add: fp_avg_dist_def avg_dist_def fp_landmark_at_finite fp_tip_distances_finite
          foldl_fp_add_finite)
  qed
qed

lemma fp_pose_test_finite:
  "fp_pose_test t (map fp_of_landmark h) (fp_of_detector s) = pose_test t h s"
proof -
  have a: "fp_is_open_palm (map fp_of_landmark h) = is_open_palm h"
    and b: "fp_is_closed_fist (map fp_of_landmark h) = is_closed_fist h"
    by (cases "avg_dist h 0";
        simp add: fp_is_open_palm_def fp_is_closed_fist_def is_open_palm_def is_closed_fist_def
          fp_avg_dist_finite)+
  have c: "fp_last_gesture_time (fp_of_detector s) = last_gesture_time s"
    by (simp add: fp_of_detector_def)
  show ?thesis unfolding fp_pose_test_def pose_test_def a b c ..
qed

lemma fp_track_finite:
  "fp_track (fp_of_point cur) (fp_of_point ip) (fp_of_detector s) = fp_of_detector (track cur ip s)"
  by (simp add: fp_track_def track_def fp_of_detector_def fp_of_point_def fp_sub_def Let_def
      map_tl)

lemma fp_net_displacement_finite:
  "hist \<noteq> [] \<Longrightarrow> fp_net_displacement (map fp_of_point hist) = fp_of_point (net_displacement hist)"
  by (simp add: fp_net_displacement_def net_displacement_def fp_of_point_def fp_sub_def
      hd_map last_map)

lemma fp_swipe_test_finite: "fp_swipe_test t (fp_of_detector s) = swipe_test t s"
proof (cases "length (movement_history s) \<ge> min_swipe_frames")
  case True
  then have "movement_history s \<noteq> []" by (auto simp add: min_swipe_frames_def)
  from fp_net_displacement_finite [OF this] True show ?thesis
    by (simp add: fp_swipe_test_def swipe_test_def fp_of_detector_def fp_of_point_def Let_def)
next
  case False
  then show ?thesis by (simp add: fp_swipe_test_def swipe_test_def fp_of_detector_def)
qed

lemma fp_volume_test_finite: "fp_volume_test t (fp_of_detector s) = volume_test t s"
proof (cases "length (movement_history s) \<ge> min_swipe_frames")
  case True
  then have "movement_history s \<noteq> []" by (auto simp add: min_swipe_frames_def)
  from fp_net_displacement_finite [OF this] True show ?thesis
    by (simp add: fp_volume_test_def volume_test_def fp_of_detector_def fp_of_point_def Let_def)
next
  case False
  then show ?thesis by (simp add: fp_volume_test_def volume_test_def fp_of_detector_def)
qed

lemma fp_fired_finite: "fp_fired t (fp_of_detector s) = fp_of_detector (fired t s)"
  by (simp add: fp_fired_def fired_def fp_of_detector_def)

lemma fp_of_detector_updates:
  "(fp_of_detector s)\<lparr>fp_initial_position := Some (fp_of_point p)\<rparr>
     = fp_of_detector (s\<lparr>initial_position := Some p\<rparr>)"
  "(fp_of_detector s)\<lparr>fp_movement_history := []\<rparr>
     = fp_of_detector (s\<lparr>movement_history := []\<rparr>)"
  by (simp_all add: fp_of_detector_def)

text \<open>On finite coordinates the second model is the first one.\<close>

lemma fp_detect_gesture_finite:
  "fp_detect_gesture t (map fp_of_landmark h) (fp_of_detector s)
   = map_prod id fp_of_detector (detect_gesture t h s)"
proof (cases "current_position h")
  case (Inl e)
  then show ?thesis
    by (simp add: fp_detect_gesture_def fp_detect_gesture_body_def detect_gesture_def
        detect_gesture_body_def fp_current_position_finite)
next
  case (Inr cur)
  show ?thesis
  proof (cases "initial_position s")
    case None
    then have "fp_initial_position (fp_of_detector s) = None"
      by (simp add: fp_of_detector_def)
    with Inr None show ?thesis
      by (simp add: fp_detect_gesture_def fp_detect_gesture_body_def detect_gesture_def
          detect_gesture_body_def fp_current_position_finite fp_of_detector_updates)
  next
    case (Some ip)
    then have "fp_initial_position (fp_of_detector s) = Some (fp_of_point ip)"
      by (simp add: fp_of_detector_def)
    with Inr Some show ?thesis
      by (simp add: fp_detect_gesture_def fp_detect_gesture_body_def detect_gesture_def
          detect_gesture_body_def fp_current_position_finite fp_track_finite
          fp_swipe_test_finite fp_volume_test_finite fp_pose_test_finite fp_fired_finite
          fp_of_detector_updates Let_def
          split: option.split sum.split)
  qed
qed

section \<open>The claims\<close>

subsection \<open>C1: the swipe-right scenario\<close>

text \<open>
  Claim C1 says that, from a freshly reset tracker, three calls with the reference points
  \<open>(0.3, 0.5)\<close>, \<open>(0.35, 0.51)\<close>, \<open>(0.42, 0.50)\<close> make the third call return SwipeRight.
  On the code the third call has no more than two samples in the window: the first call
  only stores the reference. With hands in neither pose and the initial detector, the
  three calls return nothing.
\<close>

theorem third_call_counterexample:
  "initial_position init_detector = None \<and> movement_history init_detector = []
   \<and> current_position (neutral_hand 0.3 0.5) = Inr (0.3, 0.5)
   \<and> current_position (neutral_hand 0.35 0.51) = Inr (0.35, 0.51)
   \<and> current_position (neutral_hand 0.42 0.50) = Inr (0.42, 0.50)
   \<and> fst (detect_gesture 1000.5 (neutral_hand 0.42 0.50)
          (snd (detect_gesture 1000.25 (neutral_hand 0.35 0.51)
            (snd (detect_gesture 1000 (neutral_hand 0.3 0.5) init_detector))))) = None"
  by (simp add: detect_first detect_neutral_eval neutral_hand_facts init_detector_def)

lemma three_calls:
  assumes "initial_position s = None" and "movement_history s = []"
      and "current_position h1 = Inr (0.3, 0.5)"
      and "current_position h2 = Inr (0.35, 0.51)"
      and "current_position h3 = Inr (0.42, 0.50)"
      and "s1 = snd (detect_gesture t1 h1 s)"
      and "s2 = snd (detect_gesture t2 h2 s1)"
      and "r3 = detect_gesture t3 h3 s2"
  shows "fst r3 \<noteq> Some SwipeRight \<and> fst r3 \<noteq> Some SwipeLeft
       \<and> fst r3 \<noteq> Some VolumeUp \<and> fst r3 \<noteq> Some VolumeDown
       \<and> (avg_dist h2 0 = Inr a2 \<and> 0.06 \<le> a2 \<and> a2 \<le> 0.12
          \<and> avg_dist h3 0 = Inr a3 \<and> 0.06 \<le> a3 \<and> a3 \<le> 0.12
          \<longrightarrow> r3 = (None, s\<lparr>initial_position := Some (0.42, 0.50),
                               movement_history := [(0.05, 0.01), (0.07, - 0.01)],
                               debug_log_counter := debug_log_counter s + 2\<rparr>))"
proof -
  have s1: "s1 = s\<lparr>initial_position := Some (0.3, 0.5), movement_history := []\<rparr>"
    using assms(1,3,6) by (simp add: detect_first)
  have "length (movement_history s2) \<le> 1"
    using detect_history_grow [of t2 h2 s1] assms(7) s1 by simp
  then have short: "\<not> length (movement_history s2) + 1 \<ge> min_swipe_frames"
    by (simp add: min_swipe_frames_def)
  have no_motion: "fst r3 \<noteq> Some g" if "motion_gesture g" for g
  proof
    assume "fst r3 = Some g"
    then have "detect_gesture t3 h3 s2 = (Some g, snd r3)"
      using assms(8) by (simp add: prod_eq_iff)
    from detect_motion_needs_window [OF this that] short show False by simp
  qed
  have neutral: "r3 = (None, s\<lparr>initial_position := Some (0.42, 0.50),
                               movement_history := [(0.05, 0.01), (0.07, - 0.01)],
                               debug_log_counter := debug_log_counter s + 2\<rparr>)"
    if a2: "avg_dist h2 0 = Inr a2" "0.06 \<le> a2" "a2 \<le> 0.12"
      and a3: "avg_dist h3 0 = Inr a3" "0.06 \<le> a3" "a3 \<le> 0.12"
  proof -
    have "initial_position s1 = Some (0.3, 0.5)" "length (movement_history s1) < 2"
      by (simp_all add: s1)
    from detect_neutral_short [OF this(1) assms(4) this(2) a2, of t2]
    have s2: "s2 = s\<lparr>initial_position := Some (0.35, 0.51),
                          movement_history := [(0.05, 0.01)],
                          debug_log_counter := debug_log_counter s + 1\<rparr>"
      using assms(7) by (simp add: s1)
    have "initial_position s2 = Some (0.35, 0.51)" "length (movement_history s2) < 2"
      by (simp_all add: s2)
    from detect_neutral_short [OF this(1) assms(5) this(2) a3, of t3]
    show ?thesis
      using assms(8) by (simp add: s2)
  qed
  show ?thesis
    using no_motion [of SwipeRight] no_motion [of SwipeLeft] no_motion [of VolumeUp]
      no_motion [of VolumeDown] neutral
    by (simp add: motion_gesture_def)
qed

text \<open>
  Claim C1, amended: from a freshly reset tracker, the third of three calls with these
  reference points returns no swipe and no volume gesture, whatever the hands and the
  clock; when the second and the third hand are in neither static pose (average
  fingertip distance between 0.06 and 0.12) it returns no gesture and leaves the window
  \<open>[(0.05, 0.01), (0.07, -0.01)]\<close> and the reference \<open>(0.42, 0.50)\<close>.
\<close>

theorem third_call_no_swipe:
  assumes "initial_position s = None" and "movement_history s = []"
      and "current_position h1 = Inr (0.3, 0.5)"
      and "current_position h2 = Inr (0.35, 0.51)"
      and "current_position h3 = Inr (0.42, 0.50)"
  shows "let s1 = snd (detect_gesture t1 h1 s);
             s2 = snd (detect_gesture t2 h2 s1);
             r3 = detect_gesture t3 h3 s2
         in fst r3 \<noteq> Some SwipeRight \<and> fst r3 \<noteq> Some SwipeLeft
          \<and> fst r3 \<noteq> Some VolumeUp \<and> fst r3 \<noteq> Some VolumeDown
          \<and> (avg_dist h2 0 = Inr a2 \<and> 0.06 \<le> a2 \<and> a2 \<le> 0.12
             \<and> avg_dist h3 0 = Inr a3 \<and> 0.06 \<le> a3 \<and> a3 \<le> 0.12
             \<longrightarrow> r3 = (None, s\<lparr>initial_position := Some (0.42, 0.50),
                                  movement_history := [(0.05, 0.01), (0.07, - 0.01)],
                                  debug_log_counter := debug_log_counter s + 2\<rparr>))"
  using three_calls [where ?a2.0 = a2 and ?a3.0 = a3, OF assms refl refl refl]
  by (simp add: Let_def)

theorem third_call_no_swipe_witness:
  "initial_position init_detector = None \<and> movement_history init_detector = []
   \<and> current_position (neutral_hand 0.3 0.5) = Inr (0.3, 0.5)
   \<and> current_position (neutral_hand 0.35 0.51) = Inr (0.35, 0.51)
   \<and> current_position (neutral_hand 0.42 0.50) = Inr (0.42, 0.50)
   \<and> avg_dist (neutral_hand 0.35 0.51) 0 = Inr 0.1
   \<and> avg_dist (neutral_hand 0.42 0.50) 0 = Inr 0.1
   \<and> (0.06::real) \<le> 0.1 \<and> (0.1::real) \<le> 0.12
   \<and> detect_gesture 1000.5 (neutral_hand 0.42 0.50)
         (snd (detect_gesture 1000.25 (neutral_hand 0.35 0.51)
           (snd (detect_gesture 1000 (neutral_hand 0.3 0.5) init_detector))))
       = (None, init_detector\<lparr>initial_position := Some (0.42, 0.50),
                               movement_history := [(0.05, 0.01), (0.07, - 0.01)],
                               debug_log_counter := debug_log_counter init_detector + 2\<rparr>)"
proof -
  have fresh: "initial_position init_detector = None" "movement_history init_detector = []"
    by (simp_all add: init_detector_def)
  have pos: "current_position (neutral_hand 0.3 0.5) = Inr (0.3, 0.5)"
    "current_position (neutral_hand 0.35 0.51) = Inr (0.35, 0.51)"
    "current_position (neutral_hand 0.42 0.50) = Inr (0.42, 0.50)"
    by (simp_all add: neutral_hand_facts)
  have avg: "avg_dist (neutral_hand 0.35 0.51) 0 = Inr 0.1"
    "avg_dist (neutral_hand 0.42 0.50) 0 = Inr 0.1"
    by (simp_all add: neutral_hand_facts)
  show ?thesis
    using third_call_no_swipe [OF fresh pos, where ?t1.0 = 1000 and ?t2.0 = "1000.25"
        and ?t3.0 = "1000.5" and ?a2.0 = "0.1" and ?a3.0 = "0.1"] fresh pos avg
    by (simp add: Let_def)
qed

subsection \<open>C2: the reset after an emitted gesture\<close>

text \<open>
  Claim C2 says that the tracker is reset after any call that emits a gesture, Quit
  included. The Quit path returns before the tracker is touched: on a tracking detector,
  two raised hands give Quit and the reference and the window stay as they were.
\<close>

theorem quit_keeps_tracker_counterexample:
  "fst (process_frame [(1001, raised_hand), (1001, raised_hand)] tracking) = Some Quit
   \<and> initial_position (snd (process_frame [(1001, raised_hand), (1001, raised_hand)] tracking))
       = Some (0.6, 0.5)
   \<and> movement_history (snd (process_frame [(1001, raised_hand), (1001, raised_hand)] tracking))
       = [(0.1, 0)]"
  by (simp add: process_frame_quit raised_hand_def hand_of_def pt_def tracking_def
      process_every_n_frames_def)

text \<open>
  Claim C2, amended: after a call of \<^verbatim>\<open>process_frame\<close> that emits a gesture other than
  Quit (a swipe, a volume gesture, Play or Pause) the reference position is absent and
  the window is empty; after a call that emits Quit both are as they were before it.
\<close>

theorem gesture_resets_tracker:
  assumes "process_frame obs s = (Some g, s')"
  shows "(initial_position s', movement_history s')
         = (if g = Quit then (initial_position s, movement_history s) else (None, []))"
proof (cases "g = Quit")
  case True
  with process_frame_Quit [of obs s s'] assms show ?thesis by simp
next
  case False
  with process_frame_Some [OF assms] show ?thesis by simp
qed

theorem gesture_resets_tracker_witness:
  "process_frame [(1001, open_hand)] tracking
     = (Some Play, tracking\<lparr>frame_skip_count := 12, debug_log_counter := 2,
                            last_gesture_time := 1001, initial_position := None,
                            movement_history := []\<rparr>)
   \<and> (initial_position (tracking\<lparr>frame_skip_count := 12, debug_log_counter := 2,
                            last_gesture_time := 1001, initial_position := None,
                            movement_history := []\<rparr>),
       movement_history (tracking\<lparr>frame_skip_count := 12, debug_log_counter := 2,
                            last_gesture_time := 1001, initial_position := None,
                            movement_history := []\<rparr>))
      = (None, [])
   \<and> process_frame [(1001, raised_hand), (1001, raised_hand)] tracking
     = (Some Quit, tracking\<lparr>frame_skip_count := 12\<rparr>)
   \<and> (initial_position (tracking\<lparr>frame_skip_count := 12\<rparr>),
       movement_history (tracking\<lparr>frame_skip_count := 12\<rparr>))
      = (initial_position tracking, movement_history tracking)"
proof -
  have play: "process_frame [(1001, open_hand)] tracking
     = (Some Play, tracking\<lparr>frame_skip_count := 12, debug_log_counter := 2,
                            last_gesture_time := 1001, initial_position := None,
                            movement_history := []\<rparr>)"
    by (simp add: process_frame_single detect_open_eval fired_def tracking_def
        process_every_n_frames_def play_pause_cooldown_def)
  have quit: "process_frame [(1001, raised_hand), (1001, raised_hand)] tracking
     = (Some Quit, tracking\<lparr>frame_skip_count := 12\<rparr>)"
    by (simp add: process_frame_quit raised_hand_def hand_of_def pt_def tracking_def
        process_every_n_frames_def)
  show ?thesis
    using gesture_resets_tracker [OF play] gesture_resets_tracker [OF quit] play quit
    by simp
qed

subsection \<open>C3: cooldowns\<close>

text \<open>
  Claim C3: in any run of frames from any detector state, two motion gestures emitted at
  times \<open>t1 < t2\<close> are at least \<open>gesture_cooldown\<close> apart, and two static gestures at
  least \<open>play_pause_cooldown\<close> apart. The time of an emission is the clock value read by
  the call of \<^verbatim>\<open>detect_gesture\<close> that returns the gesture.
\<close>

theorem cooldown_monotonicity:
  assumes "(t1, g1) \<in> set (emissions fs s)" and "(t2, g2) \<in> set (emissions fs s)"
      and "t1 < t2"
  shows "(motion_gesture g1 \<and> motion_gesture g2 \<longrightarrow> t2 - t1 \<ge> gesture_cooldown)
       \<and> (static_gesture g1 \<and> static_gesture g2 \<longrightarrow> t2 - t1 \<ge> play_pause_cooldown)"
  using chain_pair [OF emissions_chain assms]
  by (auto simp add: cooldown_of_def motion_gesture_def static_gesture_def)

text \<open>Two swipes in one run, and two open palms in another.\<close>

theorem cooldown_monotonicity_witness:
  "emissions [[(1000, neutral_hand 0.6 0.5)], [], [], [], [(1000.1, neutral_hand 0.8 0.5)],
              [], [], [], [(1000.2, neutral_hand 0.5 0.5)], [], [], [],
              [(1000.3, neutral_hand 0.5 0.5)], [], [], [], [(1000.4, neutral_hand 0.5 0.5)],
              [], [], [], [(1000.5, neutral_hand 0.7 0.5)]] tracking
     = [(1000.1, SwipeRight), (1000.5, SwipeRight)]
   \<and> (1000.1::real) < 1000.5 \<and> motion_gesture SwipeRight
   \<and> (1000.5::real) - 1000.1 \<ge> gesture_cooldown
   \<and> emissions [[(1001, open_hand)], [], [], [], [(1002, open_hand)],
                [], [], [], [(1004, open_hand)]] tracking
     = [(1001, Play), (1004, Play)]
   \<and> (1001::real) < 1004 \<and> static_gesture Play
   \<and> (1004::real) - 1001 \<ge> play_pause_cooldown"
proof -
  let ?M = "[[(1000, neutral_hand 0.6 0.5)], [], [], [], [(1000.1, neutral_hand 0.8 0.5)],
              [], [], [], [(1000.2, neutral_hand 0.5 0.5)], [], [], [],
              [(1000.3, neutral_hand 0.5 0.5)], [], [], [], [(1000.4, neutral_hand 0.5 0.5)],
              [], [], [], [(1000.5, neutral_hand 0.7 0.5)]]"
  let ?P = "[[(1001, open_hand)], [], [], [], [(1002, open_hand)],
                [], [], [], [(1004, open_hand)]]"
  have m: "emissions ?M tracking = [(1000.1, SwipeRight), (1000.5, SwipeRight)]"
    by (simp add: process_frame_skipped process_frame_single frame_emission_skipped
        frame_emission_single detect_first detect_neutral_eval detect_neutral_swipe_right
        neutral_hand_facts fired_def tracking_def process_every_n_frames_def
        play_pause_cooldown_def gesture_cooldown_def)
  have p: "emissions ?P tracking = [(1001, Play), (1004, Play)]"
    by (simp add: process_frame_skipped process_frame_single frame_emission_skipped
        frame_emission_single detect_first detect_open_eval
        open_hand_facts fired_def tracking_def process_every_n_frames_def
        play_pause_cooldown_def)
  have m1: "(1000.1, SwipeRight) \<in> set (emissions ?M tracking)"
    and m2: "(1000.5, SwipeRight) \<in> set (emissions ?M tracking)"
    unfolding m by simp_all
  have p1: "(1001, Play) \<in> set (emissions ?P tracking)"
    and p2: "(1004, Play) \<in> set (emissions ?P tracking)"
    unfolding p by simp_all
  have lt: "(1000.1::real) < 1000.5" "(1001::real) < 1004" by simp_all
  have kinds: "motion_gesture SwipeRight" "static_gesture Play"
    by (simp_all add: motion_gesture_def static_gesture_def)
  from cooldown_monotonicity [OF m1 m2 lt(1)] kinds
  have a: "(1000.5::real) - 1000.1 \<ge> gesture_cooldown" by blast
  from cooldown_monotonicity [OF p1 p2 lt(2)] kinds
  have b: "(1004::real) - 1001 \<ge> play_pause_cooldown" by blast
  from m p lt kinds a b show ?thesis by blast
qed

subsection \<open>C4: the priority of Quit\<close>

text \<open>
  Claim C4: on a processed frame (the frame counter reaches a multiple of
  \<open>process_every_n_frames\<close>) with at least two hands whose first two wrists have
  \<open>y < 0.3\<close>, the result is Quit, whatever the detector state, the clock values and the
  rest of the landmarks; the detector only counts the frame.
\<close>

theorem quit_priority:
  assumes "(frame_skip_count s + 1) mod process_every_n_frames = 0"
      and "lm_y wrist1 < 0.3" and "lm_y wrist2 < 0.3"
  shows "process_frame ((t1, wrist1 # r1) # (t2, wrist2 # r2) # rest) s
         = (Some Quit, s\<lparr>frame_skip_count := frame_skip_count s + 1\<rparr>)"
  using assms by (rule process_frame_quit)

theorem quit_priority_witness:
  "(frame_skip_count tracking + 1) mod process_every_n_frames = 0
   \<and> lm_y (pt 0.5 0.2) < 0.3 \<and> lm_y (pt 0.4 0.1) < 0.3
   \<and> process_frame ((1001, pt 0.5 0.2 # tl open_hand) # (1002, pt 0.4 0.1 # []) # []) tracking
       = (Some Quit, tracking\<lparr>frame_skip_count := frame_skip_count tracking + 1\<rparr>)"
proof -
  have a: "(frame_skip_count tracking + 1) mod process_every_n_frames = 0"
    by (simp add: tracking_def process_every_n_frames_def)
  have b: "lm_y (pt 0.5 0.2) < 0.3" "lm_y (pt 0.4 0.1) < 0.3"
    by (simp_all add: pt_def)
  show ?thesis
    using quit_priority [OF a b, of 1001 "tl open_hand" 1002 "[]" "[]"] a b by simp
qed

subsection \<open>C5: the window bound\<close>

text \<open>
  Claim C5: after any number of frames, with any content, processed from the initial
  detector, the window holds at most \<open>movement_history_size\<close> samples.
\<close>

theorem window_bound:
  "length (movement_history (run_frames fs init_detector)) \<le> movement_history_size"
  by (rule run_len) (simp add: init_detector_def)

theorem window_bound_witness:
  "length (movement_history (run_frames [[], [], [], [(1000, neutral_hand 0.5 0.5)], [], [], [],
               [(1000.5, neutral_hand 0.6 0.5)], [], [], []] init_detector)) \<le> movement_history_size"
  using window_bound [of "[[], [], [], [(1000, neutral_hand 0.5 0.5)], [], [], [],
               [(1000.5, neutral_hand 0.6 0.5)], [], [], []]"]
  by simp

subsection \<open>C6: which hands are classified\<close>

text \<open>
  Claim C6 says that only the first hand of a frame is classified. The loop goes on to the
  next hand whenever a hand yields no gesture: after three skipped frames, with a first
  hand that only initialises the reference, an open second hand gives Play and a neutral
  second hand gives nothing.
\<close>

theorem later_hand_counterexample:
  "quit_test (map snd [(1000, neutral_hand 0.3 0.5), (1000, open_hand)]) = Inr False
   \<and> quit_test (map snd [(1000, neutral_hand 0.3 0.5), (1000, neutral_hand 0.3 0.5)]) = Inr False
   \<and> fst (process_frame [(1000, neutral_hand 0.3 0.5), (1000, open_hand)] armed) = Some Play
   \<and> fst (process_frame [(1000, neutral_hand 0.3 0.5), (1000, neutral_hand 0.3 0.5)] armed) = None"
proof -
  have q: "quit_test [neutral_hand 0.3 0.5, open_hand] = Inr False"
    "quit_test [neutral_hand 0.3 0.5, neutral_hand 0.3 0.5] = Inr False"
    by (simp_all add: neutral_hand_def open_hand_def quit_test_level)
  have a: "(frame_skip_count armed + 1) mod process_every_n_frames = 0"
    by (simp add: armed_def init_detector_def process_every_n_frames_def)
  show ?thesis
    using q process_frame_pair [OF a q(1), of 1000 1000] process_frame_pair [OF a q(2), of 1000 1000]
    by (simp add: detect_first detect_neutral_eval detect_open_eval
        neutral_hand_facts armed_def init_detector_def play_pause_cooldown_def)
qed

text \<open>
  Claim C6, amended: the hands of a frame are classified in order until one of them yields
  a gesture, and the hands after that one have no effect. When the hands \<open>pre\<close> alone
  make the frame return a gesture and the two-hand quit condition does not hold, any
  further hands \<open>rest\<close> behind them change neither the returned gesture nor the
  detector state.
\<close>

theorem first_gesture_wins:
  assumes "fst (process_frame pre s) = Some g"
      and "quit_test (map snd (pre @ rest)) = Inr False"
  shows "process_frame (pre @ rest) s = process_frame pre s"
proof -
  let ?s1 = "s\<lparr>frame_skip_count := frame_skip_count s + 1\<rparr>"
  have q: "quit_test (map snd pre) = Inr False"
    using assms(2) by (rule quit_test_prefix)
  have pre: "process_frame pre s = classify_hands pre ?s1"
  proof (cases pre s rule: process_frame_cases)
    case hands then show ?thesis by simp
  qed (use assms(1) q in simp_all)
  have "pre \<noteq> []"
    using assms(1) pre by auto
  have all: "process_frame (pre @ rest) s = classify_hands (pre @ rest) ?s1"
  proof (cases "pre @ rest" s rule: process_frame_cases)
    case hands then show ?thesis by simp
  next
    case skipped
    then have "process_frame pre s = (None, ?s1)"
      by (simp add: process_frame_def process_frame_body_def Let_def)
    with assms(1) show ?thesis by simp
  qed (use assms(2) \<open>pre \<noteq> []\<close> in simp_all)
  obtain s' where "classify_hands pre ?s1 = (Some g, s')"
    using assms(1) pre by (cases "classify_hands pre ?s1") simp
  from classify_hands_append [OF this] this all pre show ?thesis by simp
qed

theorem first_gesture_wins_witness:
  "fst (process_frame [(1001, open_hand)] tracking) = Some Play
   \<and> quit_test (map snd ([(1001, open_hand)] @ [(1001, neutral_hand 0.3 0.5)])) = Inr False
   \<and> process_frame ([(1001, open_hand)] @ [(1001, neutral_hand 0.3 0.5)]) tracking
       = process_frame [(1001, open_hand)] tracking"
proof -
  have a: "fst (process_frame [(1001, open_hand)] tracking) = Some Play"
    by (simp add: process_frame_single detect_open_eval fired_def tracking_def
        process_every_n_frames_def play_pause_cooldown_def)
  have "quit_test [open_hand, neutral_hand 0.3 0.5] = Inr False"
    by (simp add: neutral_hand_def open_hand_def quit_test_level)
  then have b: "quit_test (map snd ([(1001, open_hand)] @ [(1001, neutral_hand 0.3 0.5)])) = Inr False"
    by simp
  from first_gesture_wins [OF a b] a b show ?thesis by blast
qed

subsection \<open>C7: malformed hands\<close>

text \<open>
  Claim C7 says that every malformed hand (wrong landmark count or non-finite
  coordinates) gives no gesture, raises nothing and triggers a tracker reset. No check of
  the hand and no reset on that path exist in the code:
  \<^item> a hand of three landmarks on a processed frame gives no gesture, and the reference
    and the window of the tracking detector are still there afterwards;
  \<^item> a hand of 22 landmarks is classified and gives Play;
  \<^item> two hands of one raised landmark each give Quit;
  \<^item> a hand whose wrist has the x coordinate NaN gives no gesture and leaves NaN in the
    reference and in the window;
  \<^item> a hand whose wrist has the x coordinate \<open>+\<infinity>\<close> gives SwipeRight.
\<close>

theorem malformed_hand_counterexample:
  "length short_hand \<noteq> 21
   \<and> process_frame [(1001, short_hand)] tracking = (None, tracking\<lparr>frame_skip_count := 12\<rparr>)
   \<and> initial_position (tracking\<lparr>frame_skip_count := 12\<rparr>) = Some (0.6, 0.5)
   \<and> movement_history (tracking\<lparr>frame_skip_count := 12\<rparr>) = [(0.1, 0)]
   \<and> length long_hand \<noteq> 21
   \<and> fst (process_frame [(1001, long_hand)] tracking) = Some Play
   \<and> fst (process_frame [(1001, [pt 0.5 0.2]), (1001, [pt 0.5 0.2])] tracking) = Some Quit
   \<and> fp_detect_gesture 1001 (fp_hand_with_wrist_x NaN) (fp_of_detector tracking)
       = (None, (fp_of_detector tracking)
            \<lparr>fp_movement_history := [(Finite 0.1, Finite 0), (NaN, Finite 0)],
             fp_debug_log_counter := 2,
             fp_initial_position := Some (NaN, Finite 0.5)\<rparr>)
   \<and> fst (fp_detect_gesture 1001 (fp_hand_with_wrist_x PosInf) (fp_of_detector primed))
       = Some SwipeRight"
proof -
  have a: "(frame_skip_count tracking + 1) mod process_every_n_frames = 0"
    by (simp add: tracking_def process_every_n_frames_def)
  have short: "process_frame [(1001, short_hand)] tracking
               = (None, tracking\<lparr>frame_skip_count := 12\<rparr>)"
    using process_frame_few_landmarks [OF a, of short_hand "[]" 1001]
    by (simp add: short_hand_def quit_test_def tracking_def)
  have quit: "fst (process_frame [(1001, [pt 0.5 0.2]), (1001, [pt 0.5 0.2])] tracking)
              = Some Quit"
    using process_frame_quit [OF a, of "pt 0.5 0.2" "pt 0.5 0.2" 1001 "[]" 1001 "[]" "[]"]
    by (simp add: pt_def)
  have len: "length short_hand \<noteq> 21" "length long_hand \<noteq> 21"
    by (simp_all add: short_hand_def long_hand_take)
  have kept: "initial_position (tracking\<lparr>frame_skip_count := 12\<rparr>) = Some (0.6, 0.5)"
    "movement_history (tracking\<lparr>frame_skip_count := 12\<rparr>) = [(0.1, 0)]"
    by (simp_all add: tracking_def)
  have long: "fst (process_frame [(1001, long_hand)] tracking) = Some Play"
    by (simp add: long_hand_play)
  have inf: "fst (fp_detect_gesture 1001 (fp_hand_with_wrist_x PosInf) (fp_of_detector primed))
             = Some SwipeRight"
    by (simp add: fp_inf_hand)
  from len short kept long quit fp_nan_hand inf show ?thesis
    by (intro conjI)
qed

text \<open>
  Claim C7, amended. The calls do not raise (they are total functions, every exception
  of a body being a branch of its handler), and:
  \<^item> a hand with fewer than 21 landmarks that is the first hand of a processed frame,
    the two-hand quit condition not holding, makes the per-frame call return no gesture
    and leave the detector as it was but for the frame counter: no reset is triggered;
  \<^item> a direct call of \<^verbatim>\<open>detect_gesture\<close> on fewer than 5 landmarks returns no gesture
    and changes nothing;
  \<^item> a hand with more than 21 landmarks is classified as the hand of its first 21
    landmarks (so it can yield a gesture);
  \<^item> a hand with non-finite coordinates is classified like any other hand (so it can
    yield a gesture, and its values get into the reference and the window), and
    triggers no reset either: when the call returns no gesture, a reference that was
    stored before it is still stored after it.
\<close>

theorem malformed_hand_no_reset:
  "((frame_skip_count s + 1) mod process_every_n_frames = 0 \<and> length h < 21
      \<and> quit_test (h # map snd rest) \<noteq> Inr True
     \<longrightarrow> process_frame ((t, h) # rest) s
         = (None, s\<lparr>frame_skip_count := frame_skip_count s + 1\<rparr>))
   \<and> (length h < 5 \<longrightarrow> detect_gesture t h s = (None, s))
   \<and> process_frame (map (apsnd (take 21)) obs) s = process_frame obs s
   \<and> (fst (fp_detect_gesture t fh fs) = None \<and> fp_initial_position fs \<noteq> None
      \<longrightarrow> fp_initial_position (snd (fp_detect_gesture t fh fs)) \<noteq> None)"
proof (intro conjI impI)
  assume "(frame_skip_count s + 1) mod process_every_n_frames = 0 \<and> length h < 21
      \<and> quit_test (h # map snd rest) \<noteq> Inr True"
  then have "(frame_skip_count s + 1) mod process_every_n_frames = 0" "length h < 21"
    "quit_test (h # map snd rest) \<noteq> Inr True"
    by simp_all
  then show "process_frame ((t, h) # rest) s
         = (None, s\<lparr>frame_skip_count := frame_skip_count s + 1\<rparr>)"
    by (rule process_frame_few_landmarks)
next
  assume "length h < 5"
  then show "detect_gesture t h s = (None, s)"
    by (rule detect_gesture_malformed)
next
  show "process_frame (map (apsnd (take 21)) obs) s = process_frame obs s"
    by (rule process_frame_take)
next
  assume "fst (fp_detect_gesture t fh fs) = None \<and> fp_initial_position fs \<noteq> None"
  then show "fp_initial_position (snd (fp_detect_gesture t fh fs)) \<noteq> None"
    using fp_detect_gesture_None_reference [of t fh fs "snd (fp_detect_gesture t fh fs)"]
    by (cases "fp_detect_gesture t fh fs") auto
qed

theorem malformed_hand_no_reset_witness:
  "(frame_skip_count tracking + 1) mod process_every_n_frames = 0
   \<and> length short_hand < 21 \<and> length short_hand < 5
   \<and> quit_test (short_hand # map snd []) \<noteq> Inr True
   \<and> process_frame ((1001, short_hand) # []) tracking
       = (None, tracking\<lparr>frame_skip_count := frame_skip_count tracking + 1\<rparr>)
   \<and> detect_gesture 1001 short_hand tracking = (None, tracking)
   \<and> process_frame (map (apsnd (take 21)) [(1001, long_hand)]) tracking
       = process_frame [(1001, long_hand)] tracking
   \<and> fst (fp_detect_gesture 1001 (fp_hand_with_wrist_x NaN) (fp_of_detector tracking)) = None
   \<and> fp_initial_position (fp_of_detector tracking) \<noteq> None
   \<and> fp_initial_position
        (snd (fp_detect_gesture 1001 (fp_hand_with_wrist_x NaN) (fp_of_detector tracking)))
       \<noteq> None"
proof -
  have a: "(frame_skip_count tracking + 1) mod process_every_n_frames = 0"
    by (simp add: tracking_def process_every_n_frames_def)
  have l: "length short_hand < 21" "length short_hand < 5"
    by (simp_all add: short_hand_def)
  have q: "quit_test (short_hand # map snd []) \<noteq> Inr True"
    by (simp add: quit_test_def)
  have n: "fst (fp_detect_gesture 1001 (fp_hand_with_wrist_x NaN) (fp_of_detector tracking)) = None"
    by (simp add: fp_nan_hand)
  have r: "fp_initial_position (fp_of_detector tracking) \<noteq> None"
    by (simp add: fp_of_detector_def tracking_def)
  note m = malformed_hand_no_reset [of tracking short_hand "[]" 1001 "[(1001, long_hand)]"
      "fp_hand_with_wrist_x NaN" "fp_of_detector tracking"]
  from m a l(1) q have p1: "process_frame ((1001, short_hand) # []) tracking
       = (None, tracking\<lparr>frame_skip_count := frame_skip_count tracking + 1\<rparr>)"
    by blast
  from m l(2) have p2: "detect_gesture 1001 short_hand tracking = (None, tracking)"
    by blast
  from m have p3: "process_frame (map (apsnd (take 21)) [(1001, long_hand)]) tracking
       = process_frame [(1001, long_hand)] tracking"
    by blast
  from m n r have p4: "fp_initial_position
        (snd (fp_detect_gesture 1001 (fp_hand_with_wrist_x NaN) (fp_of_detector tracking)))
       \<noteq> None"
    by blast
  from a l q p1 p2 p3 n r p4 show ?thesis
    by (intro conjI)
qed

subsection \<open>C8: a frame without hands\<close>

text \<open>
  Claim C8: a processed frame with an empty observation list returns no gesture and
  resets the tracker (reference absent, window empty); the next hand that is classified
  then only stores its reference point and an empty window, and returns no gesture.
\<close>

theorem no_hand_resets:
  assumes "(frame_skip_count s + 1) mod process_every_n_frames = 0"
  shows "process_frame [] s =
           (None, s\<lparr>frame_skip_count := frame_skip_count s + 1, initial_position := None,
                    movement_history := []\<rparr>)
       \<and> (current_position h = Inr p \<longrightarrow>
            detect_gesture t h (snd (process_frame [] s)) =
              (None, s\<lparr>frame_skip_count := frame_skip_count s + 1,
                       initial_position := Some p, movement_history := []\<rparr>))"
  using assms by (simp add: process_frame_nohand detect_first)

theorem no_hand_resets_witness:
  "(frame_skip_count tracking + 1) mod process_every_n_frames = 0
   \<and> current_position open_hand = Inr (0.6, 0.5)
   \<and> process_frame [] tracking =
        (None, tracking\<lparr>frame_skip_count := frame_skip_count tracking + 1,
                         initial_position := None, movement_history := []\<rparr>)
   \<and> detect_gesture 1001 open_hand (snd (process_frame [] tracking)) =
        (None, tracking\<lparr>frame_skip_count := frame_skip_count tracking + 1,
                         initial_position := Some (0.6, 0.5), movement_history := []\<rparr>)"
proof -
  have a: "(frame_skip_count tracking + 1) mod process_every_n_frames = 0"
    by (simp add: tracking_def process_every_n_frames_def)
  have b: "current_position open_hand = Inr (0.6, 0.5)"
    by (simp add: open_hand_facts)
  note r = no_hand_resets [OF a, of open_hand "(0.6, 0.5)" 1001]
  from r have c: "process_frame [] tracking =
        (None, tracking\<lparr>frame_skip_count := frame_skip_count tracking + 1,
                         initial_position := None, movement_history := []\<rparr>)"
    by (rule conjunct1)
  from r b have d: "detect_gesture 1001 open_hand (snd (process_frame [] tracking)) =
        (None, tracking\<lparr>frame_skip_count := frame_skip_count tracking + 1,
                         initial_position := Some (0.6, 0.5), movement_history := []\<rparr>)"
    by blast
  from a b c d show ?thesis by blast
qed

subsection \<open>C9: the static poses\<close>

text \<open>
  Claim C9 says that, when no motion test fires and \<open>play_pause_cooldown\<close> has elapsed,
  an average fingertip distance above 0.12 makes the call return Play. The first call
  after a reset returns before any test: on the initial detector no motion test fires, the
  cooldown has elapsed and the hand is open (distance 0.2), and the call returns nothing.
\<close>

theorem first_observation_counterexample:
  "swipe_test 1001 init_detector = None \<and> volume_test 1001 init_detector = None
   \<and> 1001 - last_gesture_time init_detector \<ge> play_pause_cooldown
   \<and> avg_dist open_hand 0 = Inr 0.2 \<and> (0.2::real) > 0.12
   \<and> fst (detect_gesture 1001 open_hand init_detector) = None"
  by (simp add: detect_first open_hand_facts motion_tests_short init_detector_def
      min_swipe_frames_def play_pause_cooldown_def)

text \<open>
  Claim C9, amended: when the tracker already holds a reference position (the call is not
  the first observation after a reset), neither motion test fires on the updated window
  and at least \<open>play_pause_cooldown\<close> has elapsed since the last emitted gesture, the call
  returns Play if the average distance from the wrist to the five fingertips exceeds
  0.12, Pause if it is below 0.06, and no gesture otherwise.
\<close>

theorem static_pose_test:
  assumes "initial_position s = Some ip" and "current_position h = Inr cur"
      and "swipe_test t (track cur ip s) = None" and "volume_test t (track cur ip s) = None"
      and "t - last_gesture_time s \<ge> play_pause_cooldown"
      and "avg_dist h 0 = Inr a"
  shows "fst (detect_gesture t h s)
         = (if a > 0.12 then Some Play else if a < 0.06 then Some Pause else None)"
proof -
  have "pose_test t h (track cur ip s)
        = Inr (if a > 0.12 then Some Play else if a < 0.06 then Some Pause else None)"
    using assms(5,6) by (simp add: pose_test_avg)
  then show ?thesis
    using detect_by_pose [OF assms(1-4)] by simp
qed

theorem static_pose_test_witness:
  "initial_position tracking = Some (0.6, 0.5)
   \<and> current_position open_hand = Inr (0.6, 0.5)
   \<and> swipe_test 1001 (track (0.6, 0.5) (0.6, 0.5) tracking) = None
   \<and> volume_test 1001 (track (0.6, 0.5) (0.6, 0.5) tracking) = None
   \<and> 1001 - last_gesture_time tracking \<ge> play_pause_cooldown
   \<and> avg_dist open_hand 0 = Inr 0.2
   \<and> fst (detect_gesture 1001 open_hand tracking) = Some Play"
proof -
  have a: "initial_position tracking = Some (0.6, 0.5)"
    by (simp add: tracking_def)
  have b: "current_position open_hand = Inr (0.6, 0.5)"
    by (simp add: open_hand_facts)
  have "length (movement_history (track (0.6, 0.5) (0.6, 0.5) tracking)) < min_swipe_frames"
    by (simp add: track_history_short tracking_def min_swipe_frames_def)
  then have c: "swipe_test 1001 (track (0.6, 0.5) (0.6, 0.5) tracking) = None"
    "volume_test 1001 (track (0.6, 0.5) (0.6, 0.5) tracking) = None"
    by (simp_all add: motion_tests_short)
  have d: "1001 - last_gesture_time tracking \<ge> play_pause_cooldown"
    by (simp add: tracking_def play_pause_cooldown_def)
  have e: "avg_dist open_hand 0 = Inr 0.2"
    by (simp add: open_hand_facts)
  show ?thesis
    using static_pose_test [OF a b c d e] a b c d e by simp
qed

subsection \<open>C10: skipped frames\<close>

text \<open>
  Claim C10: a call of \<^verbatim>\<open>process_frame\<close> whose frame counter, once incremented, is not a
  multiple of \<open>process_every_n_frames\<close> returns no gesture and changes nothing but the
  counter: the reference, the window and the timestamp are as before, whatever the hands.
\<close>

theorem skipped_frame_unchanged:
  assumes "(frame_skip_count s + 1) mod process_every_n_frames \<noteq> 0"
  shows "process_frame obs s = (None, s\<lparr>frame_skip_count := frame_skip_count s + 1\<rparr>)"
  using assms by (rule process_frame_skipped)

theorem skipped_frame_unchanged_witness:
  "(frame_skip_count init_detector + 1) mod process_every_n_frames \<noteq> 0
   \<and> process_frame [(1001, raised_hand), (1001, raised_hand)] init_detector
       = (None, init_detector\<lparr>frame_skip_count := frame_skip_count init_detector + 1\<rparr>)"
proof -
  have a: "(frame_skip_count init_detector + 1) mod process_every_n_frames \<noteq> 0"
    by (simp add: init_detector_def process_every_n_frames_def)
  from skipped_frame_unchanged [OF a, of "[(1001, raised_hand), (1001, raised_hand)]"] a
  show ?thesis by blast
qed

end
